theory Spec2Isabelle
  imports Complex_Main
begin

section \<open>JavaScript values\<close>

text \<open>
  The client (src/client.ts) is a TypeScript class over three libraries (fetch, bs58,
  web3.js/tweetnacl).  Values that cross the wire are JSON values; a JavaScript
  \<^verbatim>\<open>number\<close> is a rational or one of the three non-finite doubles; \<^verbatim>\<open>undefined\<close> is
  \<open>None\<close> of an option type.  An object parsed from JSON is its list of members, read
  with \<open>map_of\<close>.
\<close>

datatype json =
    JNull
  | JBool bool
  | JNum rat
  | JStr string
  | JArr "json list"
  | JObj "(string \<times> json) list"

datatype number = Num rat | NaN | PosInfinity | NegInfinity

text \<open>A \<^verbatim>\<open>Date\<close> is known by its ISO-8601 rendering; \<^verbatim>\<open>Invalid Date\<close> has none.\<close>

datatype date = Date string | InvalidDate

subsection \<open>Thrown values (src/errors.ts)\<close>

text \<open>
  \<^verbatim>\<open>ZaphWorkError(message, statusCode?)\<close> and its four subclasses, each of which fixes the
  status code; everything else that can be thrown (TypeError, SyntaxError, RangeError) is
  a \<open>JsError\<close> with its name and message, and is not an instance of ZaphWorkError.
\<close>

datatype error_name =
    ZaphWorkError
  | AuthenticationError
  | ValidationError
  | NotFoundError
  | InsufficientFundsError

datatype thrown =
    SdkError error_name string "nat option"
  | JsError string string

type_synonym 'a result = "thrown + 'a"

definition new_ZaphWorkError :: "string \<Rightarrow> nat option \<Rightarrow> thrown" where
  "new_ZaphWorkError message statusCode = SdkError ZaphWorkError message statusCode"

definition new_AuthenticationError :: "string \<Rightarrow> thrown" where
  "new_AuthenticationError message = SdkError AuthenticationError message (Some 401)"

definition new_ValidationError :: "string \<Rightarrow> thrown" where
  "new_ValidationError message = SdkError ValidationError message (Some 400)"

definition new_NotFoundError :: "string \<Rightarrow> thrown" where
  "new_NotFoundError resource = SdkError NotFoundError (resource @ '' not found'') (Some 404)"

definition new_InsufficientFundsError :: "string \<Rightarrow> thrown" where
  "new_InsufficientFundsError message = SdkError InsufficientFundsError message (Some 400)"

fun instanceof_ZaphWorkError :: "thrown \<Rightarrow> bool" where
  "instanceof_ZaphWorkError (SdkError _ _ _) = True"
| "instanceof_ZaphWorkError (JsError _ _) = False"

fun error_class :: "thrown \<Rightarrow> string" where
  "error_class (SdkError ZaphWorkError _ _) = ''ZaphWorkError''"
| "error_class (SdkError AuthenticationError _ _) = ''AuthenticationError''"
| "error_class (SdkError ValidationError _ _) = ''ValidationError''"
| "error_class (SdkError NotFoundError _ _) = ''NotFoundError''"
| "error_class (SdkError InsufficientFundsError _ _) = ''InsufficientFundsError''"
| "error_class (JsError n _) = n"

fun error_message :: "thrown \<Rightarrow> string" where
  "error_message (SdkError _ m _) = m"
| "error_message (JsError _ m) = m"

fun statusCode :: "thrown \<Rightarrow> nat option" where
  "statusCode (SdkError _ _ sc) = sc"
| "statusCode (JsError _ _) = None"

text \<open>\<^verbatim>\<open>`${error}`\<close>: Error.prototype.toString, the name, then the message when it has one.\<close>

definition error_toString :: "thrown \<Rightarrow> string" where
  "error_toString e =
     (if error_message e = [] then error_class e
      else error_class e @ '': '' @ error_message e)"

subsection \<open>Truthiness, property access and string conversion\<close>

fun truthy :: "json \<Rightarrow> bool" where
  "truthy JNull = False"
| "truthy (JBool b) = b"
| "truthy (JNum r) = (r \<noteq> 0)"
| "truthy (JStr s) = (s \<noteq> [])"
| "truthy (JArr _) = True"
| "truthy (JObj _) = True"

text \<open>
  \<^verbatim>\<open>v.key\<close> for one of the keys the client reads (error, payment, task, balance, status):
  a TypeError on null, the member on an object, undefined on every other value.
\<close>

fun get_prop :: "json \<Rightarrow> string \<Rightarrow> json option result" where
  "get_prop JNull k =
     Inl (JsError ''TypeError'' (''Cannot read properties of null (reading '' @ k @ '')''))"
| "get_prop (JObj ms) k = Inr (map_of ms k)"
| "get_prop _ k = Inr None"

text \<open>The same access on a value that may be undefined.\<close>

fun get_prop_opt :: "json option \<Rightarrow> string \<Rightarrow> json option result" where
  "get_prop_opt None k =
     Inl (JsError ''TypeError'' (''Cannot read properties of undefined (reading '' @ k @ '')''))"
| "get_prop_opt (Some v) k = get_prop v k"

text \<open>
  \<^verbatim>\<open>String(v)\<close>, which the Error constructor applies to its message.  The rendering of a
  number is the runtime's (\<open>num\<close>).  A parsed object has no callable member, so its own
  \<^verbatim>\<open>toString\<close> member, if it has one, hides \<^verbatim>\<open>Object.prototype.toString\<close> and the
  conversion throws a TypeError; without one the object renders as \<^verbatim>\<open>[object Object]\<close>.
  An array is joined with commas, null elements rendering as the empty string, and the
  first element that throws ends the conversion.
\<close>

definition cannot_convert :: thrown where
  "cannot_convert = JsError ''TypeError'' ''Cannot convert object to primitive value''"

fun js_String :: "(rat \<Rightarrow> string) \<Rightarrow> json \<Rightarrow> string result"
  and js_join :: "(rat \<Rightarrow> string) \<Rightarrow> json list \<Rightarrow> string result" where
  "js_String num JNull = Inr ''null''"
| "js_String num (JBool b) = Inr (if b then ''true'' else ''false'')"
| "js_String num (JNum r) = Inr (num r)"
| "js_String num (JStr s) = Inr s"
| "js_String num (JArr vs) = js_join num vs"
| "js_String num (JObj ms) =
     (if map_of ms ''toString'' = None then Inr ''[object Object]'' else Inl cannot_convert)"
| "js_join num [] = Inr []"
| "js_join num [v] = (if v = JNull then Inr [] else js_String num v)"
| "js_join num (v # w # vs) =
     (case (if v = JNull then Inr [] else js_String num v) of
        Inl e \<Rightarrow> Inl e
      | Inr first \<Rightarrow>
          (case js_join num (w # vs) of
             Inl e \<Rightarrow> Inl e
           | Inr others \<Rightarrow> Inr (first @ '','' @ others)))"

text \<open>
  \<^verbatim>\<open>v || fallback\<close> converted to the message of an Error, for \<open>v\<close> possibly undefined;
  \<open>Inl\<close> when the conversion throws.
\<close>

definition or_message :: "(rat \<Rightarrow> string) \<Rightarrow> json option \<Rightarrow> string \<Rightarrow> string result" where
  "or_message num v fallback =
     (case v of
        None \<Rightarrow> Inr fallback
      | Some j \<Rightarrow> if truthy j then js_String num j else Inr fallback)"

text \<open>Decimal rendering of a non-negative integer (\<^verbatim>\<open>Date.now()\<close> in a template).\<close>

definition digit_char :: "nat \<Rightarrow> char" where
  "digit_char d = ''0123456789'' ! d"

fun decimal :: "nat \<Rightarrow> string" where
  "decimal n =
     (if n < 10 then [digit_char n]
      else decimal (n div 10) @ [digit_char (n mod 10)])"

declare decimal.simps [simp del]

text \<open>
  The object literal handed to \<^verbatim>\<open>JSON.stringify\<close>: members whose value is undefined are
  left out, and a non-finite number is written as null.
\<close>

definition object_literal :: "(string \<times> json option) list \<Rightarrow> json" where
  "object_literal ms = JObj (List.map_filter (\<lambda>(k, v). map_option (Pair k) v) ms)"

fun number_json :: "number \<Rightarrow> json" where
  "number_json (Num r) = JNum r"
| "number_json _ = JNull"

fun number_truthy :: "number \<Rightarrow> bool" where
  "number_truthy (Num r) = (r \<noteq> 0)"
| "number_truthy NaN = False"
| "number_truthy _ = True"

section \<open>The transport and the runtime\<close>

record http_request =
  url :: string
  req_method :: "string option"
  req_headers :: "string \<rightharpoonup> string"
  req_body :: "string option"

text \<open>
  A response as the client reads it: \<open>json_body\<close> is what \<^verbatim>\<open>response.json()\<close>
  resolves to, \<open>None\<close> when it rejects (the body is not JSON).
\<close>

record response =
  status :: nat
  statusText :: string
  set_cookie :: "string option"
  json_body :: "json option"

definition ok :: "response \<Rightarrow> bool" where
  "ok r = (200 \<le> status r \<and> status r \<le> 299)"

datatype fetch_result = Responded response | Rejected string

text \<open>\<^verbatim>\<open>RequestInit\<close>, the options of a call.\<close>

record request_init =
  opt_method :: "string option"
  opt_headers :: "(string \<rightharpoonup> string) option"
  opt_body :: "string option"

record keypair =
  publicKey :: string
  secretKey :: "nat list"

text \<open>
  What the client takes from outside: the server (it sees the calls made so far and the
  call at hand, and answers after some milliseconds), and the library functions
  \<^verbatim>\<open>bs58.decode\<close>, \<^verbatim>\<open>Keypair.fromSecretKey\<close> (\<open>None\<close> where they throw),
  \<^verbatim>\<open>bs58.encode(nacl.sign.detached(..))\<close>, \<^verbatim>\<open>JSON.stringify\<close> and
  \<^verbatim>\<open>Number.prototype.toString\<close>.
\<close>

record runtime =
  server :: "http_request list \<Rightarrow> http_request \<Rightarrow> nat \<times> fetch_result"
  bs58_decode :: "string \<Rightarrow> nat list option"
  fromSecretKey :: "nat list \<Rightarrow> keypair option"
  sign_base58 :: "nat list \<Rightarrow> string \<Rightarrow> string"
  JSON_stringify :: "json \<Rightarrow> string"
  number_toString :: "rat \<Rightarrow> string"

text \<open>The world outside the client: the calls issued so far, oldest first, and the clock.\<close>

record world =
  calls :: "http_request list"
  clock :: nat

definition fetch :: "runtime \<Rightarrow> http_request \<Rightarrow> world \<Rightarrow> fetch_result \<times> world" where
  "fetch R req w =
     (case server R (calls w) req of
        (dt, res) \<Rightarrow> (res, w\<lparr>calls := calls w @ [req], clock := clock w + dt\<rparr>))"

text \<open>\<^verbatim>\<open>setTimeout(resolve, ms)\<close>: the timer fires after \<open>ms\<close> milliseconds, at once when
  \<open>ms\<close> is not positive.\<close>

definition sleep :: "int \<Rightarrow> world \<Rightarrow> world" where
  "sleep ms w = w\<lparr>clock := clock w + nat ms\<rparr>"

section \<open>The client\<close>

datatype network_name = Devnet | MainnetBeta

record config =
  cfg_apiUrl :: string
  cfg_privateKey :: string
  cfg_network :: "network_name option"
  cfg_useX402 :: "bool option"
  cfg_platformWallet :: "string option"

record client =
  apiUrl :: string
  keypair :: keypair
  network :: network_name
  sessionCookie :: "string option"
  authenticated :: bool
  useX402 :: bool
  platformWallet :: "string option"

text \<open>\<^verbatim>\<open>s.replace(/\/$/, '')\<close>: one trailing slash is removed.\<close>

definition strip_trailing_slash :: "string \<Rightarrow> string" where
  "strip_trailing_slash s = (if s \<noteq> [] \<and> last s = CHR ''/'' then butlast s else s)"

text \<open>
  The constructor.  It is given the world and hands it back so that its network silence
  is a statement about the result.
\<close>

definition constructor :: "runtime \<Rightarrow> config \<Rightarrow> world \<Rightarrow> client result \<times> world" where
  "constructor R cfg w =
     (case bs58_decode R (cfg_privateKey cfg) of
        None \<Rightarrow>
          (Inl (new_ValidationError ''Invalid private key format. Expected base58-encoded string.''), w)
      | Some secret \<Rightarrow>
          (case fromSecretKey R secret of
             None \<Rightarrow>
               (Inl (new_ValidationError ''Invalid private key format. Expected base58-encoded string.''), w)
           | Some kp \<Rightarrow>
               (Inr \<lparr> apiUrl = strip_trailing_slash (cfg_apiUrl cfg),
                      keypair = kp,
                      network = (case cfg_network cfg of None \<Rightarrow> Devnet | Some n \<Rightarrow> n),
                      sessionCookie = None,
                      authenticated = False,
                      useX402 = (case cfg_useX402 cfg of None \<Rightarrow> False | Some b \<Rightarrow> b),
                      platformWallet = cfg_platformWallet cfg \<rparr>, w)))"

definition getAddress :: "client \<Rightarrow> string" where
  "getAddress c = publicKey (keypair c)"

subsection \<open>authenticate\<close>

text \<open>
  \<^verbatim>\<open>setCookie.match(/session=([^;]+)/)\<close>: the leftmost place where \<^verbatim>\<open>session=\<close> is
  followed by at least one character other than a semicolon; the capture is the longest
  run of such characters.
\<close>

definition startsWith :: "string \<Rightarrow> string \<Rightarrow> bool" where
  "startsWith s p = (take (length p) s = p)"

fun match_session :: "string \<Rightarrow> string option" where
  "match_session [] = None"
| "match_session (x # xs) =
     (let v = takeWhile (\<lambda>ch. ch \<noteq> CHR '';'') (drop 8 (x # xs))
      in if startsWith (x # xs) ''session='' \<and> v \<noteq> [] then Some v
         else match_session xs)"

definition json_syntax_error :: thrown where
  "json_syntax_error = JsError ''SyntaxError'' ''Unexpected token in JSON''"

definition fetch_failed :: "string \<Rightarrow> thrown" where
  "fetch_failed reason = JsError ''TypeError'' reason"

definition json_headers :: "string \<rightharpoonup> string" where
  "json_headers = [''Content-Type'' \<mapsto> ''application/json'']"

definition sign_in_message :: "string \<Rightarrow> nat \<Rightarrow> string" where
  "sign_in_message walletAddress now =
     ''Sign this message to authenticate with ZaphWork.'' @ [CHR 0x0A, CHR 0x0A]
       @ ''Wallet: '' @ walletAddress @ [CHR 0x0A] @ ''Timestamp: '' @ decimal now"

text \<open>The body of the \<^verbatim>\<open>try\<close> block of \<^verbatim>\<open>authenticate\<close>.\<close>

definition authenticate_try :: "runtime \<Rightarrow> client \<Rightarrow> world \<Rightarrow> unit result \<times> client \<times> world" where
  "authenticate_try R c w =
     (let walletAddress = getAddress c in
      case fetch R \<lparr> url = apiUrl c @ ''/api/auth/wallet/connect'',
                     req_method = Some ''POST'',
                     req_headers = json_headers,
                     req_body = Some (JSON_stringify R (object_literal
                       [(''walletAddress'', Some (JStr walletAddress)),
                        (''walletType'', Some (JStr ''phantom''))])) \<rparr> w of
        (Rejected reason, w1) \<Rightarrow> (Inl (fetch_failed reason), c, w1)
      | (Responded connectResponse, w1) \<Rightarrow>
          if \<not> ok connectResponse
          then (Inl (new_AuthenticationError ''Failed to connect wallet''), c, w1)
          else
            let message = sign_in_message walletAddress (clock w1);
                signatureBase58 = sign_base58 R (secretKey (keypair c)) message
            in (case fetch R \<lparr> url = apiUrl c @ ''/api/auth/session'',
                              req_method = Some ''POST'',
                              req_headers = json_headers,
                              req_body = Some (JSON_stringify R (object_literal
                                [(''walletAddress'', Some (JStr walletAddress)),
                                 (''signature'', Some (JStr signatureBase58)),
                                 (''message'', Some (JStr message))])) \<rparr> w1 of
                 (Rejected reason, w2) \<Rightarrow> (Inl (fetch_failed reason), c, w2)
               | (Responded sessionResponse, w2) \<Rightarrow>
                   if \<not> ok sessionResponse
                   then (case json_body sessionResponse of
                           None \<Rightarrow> (Inl json_syntax_error, c, w2)
                         | Some error \<Rightarrow>
                             (case get_prop error ''error'' of
                                Inl e \<Rightarrow> (Inl e, c, w2)
                              | Inr v \<Rightarrow>
                                  (case or_message (number_toString R) v
                                          ''Failed to create session'' of
                                     Inl e \<Rightarrow> (Inl e, c, w2)
                                   | Inr message \<Rightarrow>
                                       (Inl (new_AuthenticationError message), c, w2))))
                   else
                     (Inr (),
                      c\<lparr> sessionCookie :=
                            (case set_cookie sessionResponse of
                               None \<Rightarrow> sessionCookie c
                             | Some setCookie \<Rightarrow>
                                 (case match_session setCookie of
                                    None \<Rightarrow> sessionCookie c
                                  | Some m \<Rightarrow> Some m)),
                          authenticated := True \<rparr>,
                      w2)))"

text \<open>The \<^verbatim>\<open>catch\<close> clause: a ZaphWorkError is rethrown, anything else is wrapped.\<close>

definition authenticate_catch :: "thrown \<Rightarrow> thrown" where
  "authenticate_catch error =
     (if instanceof_ZaphWorkError error then error
      else new_AuthenticationError (''Authentication failed: '' @ error_toString error))"

definition authenticate :: "runtime \<Rightarrow> client \<Rightarrow> world \<Rightarrow> unit result \<times> client \<times> world" where
  "authenticate R c w =
     (case authenticate_try R c w of
        (Inl error, c', w') \<Rightarrow> (Inl (authenticate_catch error), c', w')
      | (Inr u, c', w') \<Rightarrow> (Inr u, c', w'))"

subsection \<open>The payment path\<close>

record payment_proof =
  signature :: string
  amount :: number
  timestamp :: number
  proof_endpoint :: string

text \<open>\<^verbatim>\<open>makeX402Payment\<close>: the body is a single \<^verbatim>\<open>throw\<close>.\<close>

definition makeX402Payment ::
  "runtime \<Rightarrow> client \<Rightarrow> json option \<Rightarrow> world \<Rightarrow> payment_proof result \<times> client \<times> world" where
  "makeX402Payment R c paymentInfo w =
     (Inl (new_ZaphWorkError
        ''x402 payment not yet implemented in SDK. Use regular session auth for now.'' None),
      c, w)"

text \<open>
  The three lines that turn a response that is not ok into a thrown value:
  \<^verbatim>\<open>const error = await response.json().catch(() => ({ error: 'Unknown error' }));\<close>
  \<^verbatim>\<open>throw new ZaphWorkError(error.error || `Request failed: ${response.statusText}`, response.status);\<close>
\<close>

definition not_ok_error :: "runtime \<Rightarrow> response \<Rightarrow> thrown" where
  "not_ok_error R r =
     (let error = (case json_body r of
                     None \<Rightarrow> JObj [(''error'', JStr ''Unknown error'')]
                   | Some j \<Rightarrow> j)
      in case get_prop error ''error'' of
           Inl e \<Rightarrow> e
         | Inr v \<Rightarrow>
             (case or_message (number_toString R) v (''Request failed: '' @ statusText r) of
                Inl e \<Rightarrow> e
              | Inr message \<Rightarrow> new_ZaphWorkError message (Some (status r))))"

text \<open>\<^verbatim>\<open>return response.json()\<close>.\<close>

definition return_json :: "response \<Rightarrow> json result" where
  "return_json r = (case json_body r of None \<Rightarrow> Inl json_syntax_error | Some j \<Rightarrow> Inr j)"

definition caller_headers :: "request_init \<Rightarrow> (string \<rightharpoonup> string)" where
  "caller_headers options = (case opt_headers options of None \<Rightarrow> Map.empty | Some h \<Rightarrow> h)"

fun number_String :: "(rat \<Rightarrow> string) \<Rightarrow> number \<Rightarrow> string" where
  "number_String num (Num r) = num r"
| "number_String num NaN = ''NaN''"
| "number_String num PosInfinity = ''Infinity''"
| "number_String num NegInfinity = ''-Infinity''"

definition proof_json :: "payment_proof \<Rightarrow> json" where
  "proof_json p = object_literal
     [(''signature'', Some (JStr (signature p))),
      (''amount'', Some (number_json (amount p))),
      (''timestamp'', Some (number_json (timestamp p))),
      (''endpoint'', Some (JStr (proof_endpoint p)))]"

definition requestWithX402Payment ::
  "runtime \<Rightarrow> client \<Rightarrow> string \<Rightarrow> request_init \<Rightarrow> world \<Rightarrow> json result \<times> client \<times> world" where
  "requestWithX402Payment R c endpoint options w =
     (case fetch R \<lparr> url = apiUrl c @ endpoint,
                     req_method = opt_method options,
                     req_headers = json_headers ++ caller_headers options,
                     req_body = opt_body options \<rparr> w of
        (Rejected reason, w1) \<Rightarrow> (Inl (fetch_failed reason), c, w1)
      | (Responded response, w1) \<Rightarrow>
          if status response = 402 then
            (case json_body response of
               None \<Rightarrow> (Inl json_syntax_error, c, w1)
             | Some paymentInfo \<Rightarrow>
                 (case get_prop paymentInfo ''payment'' of
                    Inl e \<Rightarrow> (Inl e, c, w1)
                  | Inr payment \<Rightarrow>
                      (case makeX402Payment R c payment w1 of
                         (Inl e, c2, w2) \<Rightarrow> (Inl e, c2, w2)
                       | (Inr paymentProof, c2, w2) \<Rightarrow>
                           (case fetch R \<lparr> url = apiUrl c2 @ endpoint,
                                           req_method = opt_method options,
                                           req_headers =
                                             (json_headers
                                                (''x-payment-proof'' \<mapsto>
                                                   JSON_stringify R (proof_json paymentProof),
                                                 ''x-payment-signature'' \<mapsto> signature paymentProof,
                                                 ''x-payment-amount'' \<mapsto>
                                                   number_String (number_toString R) (amount paymentProof),
                                                 ''x-payment-timestamp'' \<mapsto>
                                                   number_String (number_toString R) (timestamp paymentProof)))
                                             ++ caller_headers options,
                                           req_body = opt_body options \<rparr> w2 of
                              (Rejected reason, w3) \<Rightarrow> (Inl (fetch_failed reason), c2, w3)
                            | (Responded paidResponse, w3) \<Rightarrow>
                                if \<not> ok paidResponse
                                then (Inl (not_ok_error R paidResponse), c2, w3)
                                else (return_json paidResponse, c2, w3)))))
          else if \<not> ok response then (Inl (not_ok_error R response), c, w1)
          else (return_json response, c, w1))"

subsection \<open>request\<close>

text \<open>
  \<^verbatim>\<open>request\<close> calls itself after a 401 with nothing that counts the calls, so
  it is a partial function: \<open>None\<close> is a call that never returns.
\<close>

definition session_headers :: "client \<Rightarrow> request_init \<Rightarrow> (string \<rightharpoonup> string)" where
  "session_headers c options =
     (case sessionCookie c of
        None \<Rightarrow> json_headers ++ caller_headers options
      | Some cookie \<Rightarrow>
          if cookie \<noteq> []
          then (json_headers ++ caller_headers options)(''Cookie'' \<mapsto> ''session='' @ cookie)
          else json_headers ++ caller_headers options)"

partial_function (option) request ::
  "runtime \<Rightarrow> client \<Rightarrow> string \<Rightarrow> request_init \<Rightarrow> world \<Rightarrow> (json result \<times> client \<times> world) option" where
  "request R c endpoint options w =
     (if startsWith endpoint ''/api/x402/'' \<and> useX402 c
      then Some (requestWithX402Payment R c endpoint options w)
      else
        case (if \<not> authenticated c then authenticate R c w else (Inr (), c, w)) of
          (Inl e, c1, w1) \<Rightarrow> Some (Inl e, c1, w1)
        | (Inr u, c1, w1) \<Rightarrow>
            (case fetch R \<lparr> url = apiUrl c1 @ endpoint,
                            req_method = opt_method options,
                            req_headers = session_headers c1 options,
                            req_body = opt_body options \<rparr> w1 of
               (Rejected reason, w2) \<Rightarrow> Some (Inl (fetch_failed reason), c1, w2)
             | (Responded response, w2) \<Rightarrow>
                 if status response = 401
                 then request R (c1\<lparr>authenticated := False, sessionCookie := None\<rparr>)
                        endpoint options w2
                 else if \<not> ok response then Some (Inl (not_ok_error R response), c1, w2)
                 else Some (return_json response, c1, w2)))"

section \<open>Resource methods\<close>

text \<open>\<^verbatim>\<open>response.task\<close> and its like: the member of the envelope that a method returns.\<close>

definition unwrap :: "string \<Rightarrow> json result \<times> client \<times> world \<Rightarrow> json option result \<times> client \<times> world" where
  "unwrap k out =
     (case out of
        (Inl e, c, w) \<Rightarrow> (Inl e, c, w)
      | (Inr envelope, c, w) \<Rightarrow> (get_prop envelope k, c, w))"

definition no_options :: request_init where
  "no_options = \<lparr> opt_method = None, opt_headers = None, opt_body = None \<rparr>"

definition post :: "string option \<Rightarrow> request_init" where
  "post b = \<lparr> opt_method = Some ''POST'', opt_headers = None, opt_body = b \<rparr>"

definition claimFaucet :: "runtime \<Rightarrow> client \<Rightarrow> world \<Rightarrow> (json result \<times> client \<times> world) option" where
  "claimFaucet R c w =
     (if network c \<noteq> Devnet
      then Some (Inl (new_ValidationError ''Faucet is only available on devnet''), c, w)
      else request R c ''/api/wallet/claim-usdc-dev'' (post None) w)"

definition getTask ::
  "runtime \<Rightarrow> client \<Rightarrow> string \<Rightarrow> world \<Rightarrow> (json option result \<times> client \<times> world) option" where
  "getTask R c taskId w = map_option (unwrap ''task'') (request R c (''/api/tasks/'' @ taskId) no_options w)"

record CreateTaskParams =
  title :: string
  description :: string
  category :: string
  paymentAmount :: number
  currency :: "string option"
  deadline :: "date option"
  workersNeeded :: "number option"

fun toISOString :: "date \<Rightarrow> string result" where
  "toISOString (Date stamp) = Inr stamp"
| "toISOString InvalidDate = Inl (JsError ''RangeError'' ''Invalid time value'')"

text \<open>\<^verbatim>\<open>params.deadline?.toISOString()\<close>.\<close>

definition deadline_iso :: "CreateTaskParams \<Rightarrow> string option result" where
  "deadline_iso params =
     (case deadline params of
        None \<Rightarrow> Inr None
      | Some d \<Rightarrow> (case toISOString d of Inl e \<Rightarrow> Inl e | Inr stamp \<Rightarrow> Inr (Some stamp)))"

text \<open>\<^verbatim>\<open>params.currency || 'USDC'\<close> and \<^verbatim>\<open>params.workersNeeded || 1\<close>.\<close>

definition currency_or_default :: "CreateTaskParams \<Rightarrow> string" where
  "currency_or_default params =
     (case currency params of
        None \<Rightarrow> ''USDC''
      | Some s \<Rightarrow> if s \<noteq> [] then s else ''USDC'')"

definition workers_or_default :: "CreateTaskParams \<Rightarrow> number" where
  "workers_or_default params =
     (case workersNeeded params of
        None \<Rightarrow> Num 1
      | Some n \<Rightarrow> if number_truthy n then n else Num 1)"

text \<open>The object literal that \<^verbatim>\<open>createTask\<close> serialises as the body of its call.\<close>

definition createTask_body :: "CreateTaskParams \<Rightarrow> json result" where
  "createTask_body params =
     (case deadline_iso params of
        Inl e \<Rightarrow> Inl e
      | Inr stamp \<Rightarrow>
          Inr (object_literal
            [(''title'', Some (JStr (title params))),
             (''description'', Some (JStr (description params))),
             (''category'', Some (JStr (category params))),
             (''payment_amount'', Some (number_json (paymentAmount params))),
             (''currency'', Some (JStr (currency_or_default params))),
             (''deadline'', map_option JStr stamp),
             (''workers_needed'', Some (number_json (workers_or_default params)))]))"

definition createTask ::
  "runtime \<Rightarrow> client \<Rightarrow> CreateTaskParams \<Rightarrow> world \<Rightarrow> (json option result \<times> client \<times> world) option" where
  "createTask R c params w =
     (let endpoint = (if useX402 c then ''/api/x402/tasks'' else ''/api/tasks/create'') in
      case createTask_body params of
        Inl e \<Rightarrow> Some (Inl e, c, w)
      | Inr b \<Rightarrow>
          map_option (unwrap ''task'')
            (request R c endpoint (post (Some (JSON_stringify R b))) w))"

text \<open>The object literal of \<^verbatim>\<open>createTaskX402\<close>.\<close>

definition createTaskX402_body :: "CreateTaskParams \<Rightarrow> json result" where
  "createTaskX402_body params =
     (case deadline_iso params of
        Inl e \<Rightarrow> Inl e
      | Inr stamp \<Rightarrow>
          Inr (object_literal
            [(''title'', Some (JStr (title params))),
             (''description'', Some (JStr (description params))),
             (''category'', Some (JStr (category params))),
             (''payment_per_task'', Some (number_json (paymentAmount params))),
             (''currency'', Some (JStr (currency_or_default params))),
             (''deadline'', map_option JStr stamp),
             (''workers_needed'', Some (number_json (workers_or_default params)))]))"

definition createTaskX402 ::
  "runtime \<Rightarrow> client \<Rightarrow> CreateTaskParams \<Rightarrow> world \<Rightarrow> json option result \<times> client \<times> world" where
  "createTaskX402 R c params w =
     (case createTaskX402_body params of
        Inl e \<Rightarrow> (Inl e, c, w)
      | Inr b \<Rightarrow>
          unwrap ''task''
            (requestWithX402Payment R c ''/api/x402/tasks'' (post (Some (JSON_stringify R b))) w))"

section \<open>waitForTaskStatus\<close>

text \<open>
  The \<^verbatim>\<open>while\<close> loop of \<^verbatim>\<open>waitForTaskStatus\<close>.  Times are milliseconds; the loop can
  run forever (a poll that never returns, or a clock that does not move), so it is a
  partial function.
\<close>

definition timeout_error :: "string \<Rightarrow> string \<Rightarrow> thrown" where
  "timeout_error taskId targetStatus =
     new_ZaphWorkError
       (''Timeout waiting for task '' @ taskId @ '' to reach status '' @ targetStatus) None"

partial_function (option) waitForTaskStatus_loop ::
  "runtime \<Rightarrow> client \<Rightarrow> string \<Rightarrow> string \<Rightarrow> int \<Rightarrow> int \<Rightarrow> nat \<Rightarrow> world
     \<Rightarrow> (json option result \<times> client \<times> world) option" where
  "waitForTaskStatus_loop R c taskId targetStatus timeoutMs pollIntervalMs startTime w =
     (if int (clock w) - int startTime < timeoutMs
      then
        (case getTask R c taskId w of
           None \<Rightarrow> None
         | Some (Inl e, c1, w1) \<Rightarrow> Some (Inl e, c1, w1)
         | Some (Inr task, c1, w1) \<Rightarrow>
             (case get_prop_opt task ''status'' of
                Inl e \<Rightarrow> Some (Inl e, c1, w1)
              | Inr st \<Rightarrow>
                  if st = Some (JStr targetStatus) then Some (Inr task, c1, w1)
                  else waitForTaskStatus_loop R c1 taskId targetStatus timeoutMs pollIntervalMs
                         startTime (sleep pollIntervalMs w1)))
      else Some (Inl (timeout_error taskId targetStatus), c, w))"

definition waitForTaskStatus ::
  "runtime \<Rightarrow> client \<Rightarrow> string \<Rightarrow> string \<Rightarrow> int option \<Rightarrow> int option \<Rightarrow> world
     \<Rightarrow> (json option result \<times> client \<times> world) option" where
  "waitForTaskStatus R c taskId targetStatus timeoutMs pollIntervalMs w =
     waitForTaskStatus_loop R c taskId targetStatus
       (case timeoutMs of None \<Rightarrow> 60000 | Some t \<Rightarrow> t)
       (case pollIntervalMs of None \<Rightarrow> 2000 | Some p \<Rightarrow> p)
       (clock w) w"

section \<open>Predicates and example runs used by the theorems\<close>

text \<open>A private key is well formed when both library calls of the constructor accept it.\<close>

definition well_formed_key :: "runtime \<Rightarrow> string \<Rightarrow> bool" where
  "well_formed_key R s =
     (case bs58_decode R s of
        None \<Rightarrow> False
      | Some secret \<Rightarrow> (case fromSecretKey R secret of None \<Rightarrow> False | Some kp \<Rightarrow> True))"

text \<open>The call that \<^verbatim>\<open>request\<close> issues on the session path, for a client and options.\<close>

definition session_call :: "client \<Rightarrow> string \<Rightarrow> request_init \<Rightarrow> http_request" where
  "session_call c endpoint options =
     \<lparr> url = apiUrl c @ endpoint,
       req_method = opt_method options,
       req_headers = session_headers c options,
       req_body = opt_body options \<rparr>"

text \<open>The call that \<^verbatim>\<open>requestWithX402Payment\<close> issues first.\<close>

definition unauthenticated_call :: "client \<Rightarrow> string \<Rightarrow> request_init \<Rightarrow> http_request" where
  "unauthenticated_call c endpoint options =
     \<lparr> url = apiUrl c @ endpoint,
       req_method = opt_method options,
       req_headers = json_headers ++ caller_headers options,
       req_body = opt_body options \<rparr>"

text \<open>The handshake that \<^verbatim>\<open>request\<close> runs first when the session is not authenticated.\<close>

definition ensure_session :: "runtime \<Rightarrow> client \<Rightarrow> world \<Rightarrow> unit result \<times> client \<times> world" where
  "ensure_session R c w = (if \<not> authenticated c then authenticate R c w else (Inr (), c, w))"

definition with_useX402 :: "bool \<Rightarrow> 'a \<times> client \<times> world \<Rightarrow> 'a \<times> client \<times> world" where
  "with_useX402 b out = (case out of (res, c, w) \<Rightarrow> (res, c\<lparr>useX402 := b\<rparr>, w))"

text \<open>A server that follows a script, one entry per call, and refuses the connection after it.\<close>

definition scripted ::
  "(nat \<times> fetch_result) list \<Rightarrow> http_request list \<Rightarrow> http_request \<Rightarrow> nat \<times> fetch_result" where
  "scripted script seen req =
     (if length seen < length script then script ! length seen
      else (0, Rejected ''connection refused''))"

definition reply :: "nat \<Rightarrow> string \<Rightarrow> json option \<Rightarrow> response" where
  "reply st txt b = \<lparr> status = st, statusText = txt, set_cookie = None, json_body = b \<rparr>"

definition demo_runtime ::
  "(http_request list \<Rightarrow> http_request \<Rightarrow> nat \<times> fetch_result) \<Rightarrow> runtime" where
  "demo_runtime srv =
     \<lparr> server = srv,
       bs58_decode = (\<lambda>s. if s = ''secret'' then Some [1, 2, 3] else None),
       fromSecretKey = (\<lambda>bs. Some \<lparr> publicKey = ''Wallet'', secretKey = bs \<rparr>),
       sign_base58 = (\<lambda>k m. ''sig''),
       JSON_stringify = (\<lambda>j. ''json''),
       number_toString = (\<lambda>r. ''0'') \<rparr>"

definition demo_client :: client where
  "demo_client =
     \<lparr> apiUrl = ''https://zaph.work'',
       keypair = \<lparr> publicKey = ''Wallet'', secretKey = [1, 2, 3] \<rparr>,
       network = Devnet,
       sessionCookie = None,
       authenticated = False,
       useX402 = False,
       platformWallet = None \<rparr>"

definition signed_in_client :: client where
  "signed_in_client = demo_client\<lparr> sessionCookie := Some ''abc'', authenticated := True \<rparr>"

definition world0 :: world where
  "world0 = \<lparr> calls = [], clock = 1000 \<rparr>"

definition server_402 :: "http_request list \<Rightarrow> http_request \<Rightarrow> nat \<times> fetch_result" where
  "server_402 =
     scripted [(5, Responded (reply 402 ''Payment Required''
       (Some (JObj [(''payment'', JObj [(''recipient'', JStr ''Platform''), (''amount'', JStr ''0.01'')])]))))]"

definition server_500 :: "http_request list \<Rightarrow> http_request \<Rightarrow> nat \<times> fetch_result" where
  "server_500 = scripted [(5, Responded (reply 500 ''Internal Server Error'' None))]"

definition session_reply :: response where
  "session_reply =
     \<lparr> status = 200, statusText = ''OK'', set_cookie = Some ''session=tok; Path=/'',
       json_body = Some (JObj []) \<rparr>"

definition server_two_401 :: "http_request list \<Rightarrow> http_request \<Rightarrow> nat \<times> fetch_result" where
  "server_two_401 =
     scripted
       [(5, Responded (reply 401 ''Unauthorized'' None)),
        (5, Responded (reply 200 ''OK'' (Some (JObj [])))),
        (5, Responded session_reply),
        (5, Responded (reply 401 ''Unauthorized'' None)),
        (5, Responded (reply 200 ''OK'' (Some (JObj [])))),
        (5, Responded session_reply),
        (5, Responded (reply 200 ''OK'' (Some (JObj [(''balance'', JNum 7)]))))]"

text \<open>A server that accepts every handshake and answers 401 at one address.\<close>

definition server_always_401 ::
  "string \<Rightarrow> http_request list \<Rightarrow> http_request \<Rightarrow> nat \<times> fetch_result" where
  "server_always_401 u seen req =
     (1, Responded (if url req = u then reply 401 ''Unauthorized'' None
                    else reply 200 ''OK'' (Some (JObj []))))"

text \<open>A server whose every answer is a task that stays open.\<close>

definition server_open_task :: "http_request list \<Rightarrow> http_request \<Rightarrow> nat \<times> fetch_result" where
  "server_open_task seen req =
     (1, Responded (reply 200 ''OK'' (Some (JObj [(''task'', JObj [(''status'', JStr ''open'')])]))))"

definition server_done_task :: "http_request list \<Rightarrow> http_request \<Rightarrow> nat \<times> fetch_result" where
  "server_done_task seen req =
     (1, Responded (reply 200 ''OK'' (Some (JObj [(''task'', JObj [(''status'', JStr ''completed'')])]))))"

definition demo_params :: CreateTaskParams where
  "demo_params =
     \<lparr> title = ''t'', description = ''d'', category = ''data'', paymentAmount = Num 5,
       currency = None, deadline = None, workersNeeded = None \<rparr>"

definition server_404 :: "http_request list \<Rightarrow> http_request \<Rightarrow> nat \<times> fetch_result" where
  "server_404 =
     scripted [(5, Responded (reply 404 ''Not Found''
       (Some (JObj [(''error'', JStr ''Task not found'')]))))]"

definition server_task_created :: "http_request list \<Rightarrow> http_request \<Rightarrow> nat \<times> fetch_result" where
  "server_task_created =
     scripted [(5, Responded (reply 201 ''Created''
       (Some (JObj [(''task'', JObj [(''id'', JStr ''1'')])]))))]"

definition server_open_then_done :: "http_request list \<Rightarrow> http_request \<Rightarrow> nat \<times> fetch_result" where
  "server_open_then_done =
     scripted
       [(1, Responded (reply 200 ''OK''
              (Some (JObj [(''task'', JObj [(''status'', JStr ''open'')])])))),
        (1, Responded (reply 200 ''OK''
              (Some (JObj [(''task'', JObj [(''status'', JStr ''completed'')])]))))]"

definition server_handshake_ok :: "http_request list \<Rightarrow> http_request \<Rightarrow> nat \<times> fetch_result" where
  "server_handshake_ok =
     scripted
       [(5, Responded (reply 200 ''OK'' (Some (JObj [])))),
        (5, Responded session_reply),
        (5, Responded (reply 200 ''OK'' (Some (JObj [(''balance'', JNum 7)]))))]"

text \<open>A stand-in for \<^verbatim>\<open>JSON.stringify\<close> that writes the names of an object's members, in order,
  so that two bodies with different member names are different strings.\<close>

definition member_names :: "json \<Rightarrow> string" where
  "member_names j = (case j of JObj ms \<Rightarrow> concat (map (\<lambda>m. fst m @ '' '') ms) | _ \<Rightarrow> [])"

definition naming_runtime ::
  "(http_request list \<Rightarrow> http_request \<Rightarrow> nat \<times> fetch_result) \<Rightarrow> runtime" where
  "naming_runtime srv = (demo_runtime srv)\<lparr> JSON_stringify := member_names \<rparr>"

text \<open>The result of a run together with the Cookie header of each call, oldest first.\<close>

definition result_and_cookies :: "'a \<times> client \<times> world \<Rightarrow> 'a \<times> string option list" where
  "result_and_cookies out = (fst out, map (\<lambda>q. req_headers q ''Cookie'') (calls (snd (snd out))))"

definition server_400 :: "http_request list \<Rightarrow> http_request \<Rightarrow> nat \<times> fetch_result" where
  "server_400 =
     scripted [(5, Responded (reply 400 ''Bad Request''
       (Some (JObj [(''detail'', JStr ''title is required'')]))))]"

text \<open>A server that accepts the handshake and answers 401 at the address \<open>u\<close>, whatever
  has been called before.\<close>

definition keeps_answering_401 :: "runtime \<Rightarrow> string \<Rightarrow> bool" where
  "keeps_answering_401 R u =
     (\<forall>seen req. case snd (server R seen req) of
                   Rejected reason \<Rightarrow> False
                 | Responded r \<Rightarrow> if url req = u then status r = 401 else ok r)"

text \<open>Every poll of the task returns, with a task whose status is not the target.\<close>

definition never_matches :: "runtime \<Rightarrow> string \<Rightarrow> string \<Rightarrow> bool" where
  "never_matches R taskId targetStatus =
     (\<forall>c w. case getTask R c taskId w of
              None \<Rightarrow> False
            | Some (Inl e, c1, w1) \<Rightarrow> False
            | Some (Inr task, c1, w1) \<Rightarrow>
                (case get_prop_opt task ''status'' of
                   Inl e \<Rightarrow> False
                 | Inr st \<Rightarrow> st \<noteq> Some (JStr targetStatus)))"

definition handshake_url :: "client \<Rightarrow> string \<Rightarrow> bool" where
  "handshake_url c u =
     (u = apiUrl c @ ''/api/auth/wallet/connect'' \<or> u = apiUrl c @ ''/api/auth/session'')"

text \<open>
  What a run may add to the calls between two worlds: handshake calls, and calls to the
  endpoint that carry the method and the body of the options.
\<close>

definition sends_only :: "client \<Rightarrow> string \<Rightarrow> request_init \<Rightarrow> world \<Rightarrow> world \<Rightarrow> bool" where
  "sends_only c endpoint options w w' =
     (take (length (calls w)) (calls w') = calls w \<and>
      list_all (\<lambda>q. handshake_url c (url q)
                   \<or> (url q = apiUrl c @ endpoint \<and> req_method q = opt_method options
                        \<and> req_body q = opt_body options))
        (drop (length (calls w)) (calls w')))"

text \<open>The result of a run together with the addresses it called, oldest first.\<close>

definition result_and_urls :: "'a \<times> client \<times> world \<Rightarrow> 'a \<times> string list" where
  "result_and_urls out = (fst out, map url (calls (snd (snd out))))"

text \<open>The members that the bodies of \<^verbatim>\<open>createTask\<close> and \<^verbatim>\<open>createTaskX402\<close> share: those
  before the payment member and those after it.\<close>

definition common_head :: "CreateTaskParams \<Rightarrow> (string \<times> json) list" where
  "common_head params =
     [(''title'', JStr (title params)),
      (''description'', JStr (description params)),
      (''category'', JStr (category params))]"

definition common_tail :: "CreateTaskParams \<Rightarrow> string option \<Rightarrow> (string \<times> json) list" where
  "common_tail params stamp =
     [(''currency'', JStr (currency_or_default params))]
     @ (case stamp of None \<Rightarrow> [] | Some d \<Rightarrow> [(''deadline'', JStr d)])
     @ [(''workers_needed'', number_json (workers_or_default params))]"

section \<open>Theorems\<close>

lemmas demo_defs = demo_runtime_def demo_client_def signed_in_client_def world0_def reply_def
  scripted_def fetch_def

lemma object_literal_Cons_Some [simp]:
  "object_literal ((k, Some v) # ms) = JObj ((k, v) # (case object_literal ms of JObj xs \<Rightarrow> xs))"
  by (simp add: object_literal_def List.map_filter_simps)

lemma object_literal_Cons_None [simp]:
  "object_literal ((k, None) # ms) = object_literal ms"
  by (simp add: object_literal_def List.map_filter_simps)

lemma object_literal_Nil [simp]: "object_literal [] = JObj []"
  by (simp add: object_literal_def List.map_filter_simps)

subsection \<open>The constructor\<close>

text \<open>
  C9.  The constructor never touches the network: it hands back the world it was given,
  for every config.  When the private key is not well formed (either library call
  throws), it fails with a ValidationError (status code 400) and the message of the
  \<^verbatim>\<open>catch\<close> clause.
\<close>

theorem constructor_rejects_malformed_key:
  "snd (constructor R cfg w) = w \<and>
   (\<not> well_formed_key R (cfg_privateKey cfg) \<longrightarrow>
      fst (constructor R cfg w) =
        Inl (SdkError ValidationError
               ''Invalid private key format. Expected base58-encoded string.'' (Some 400)))"
  by (simp add: constructor_def well_formed_key_def new_ValidationError_def split: option.splits)

theorem constructor_rejects_malformed_key_witness:
  "\<not> well_formed_key (demo_runtime server_500) ''not base58!'' \<and>
   constructor (demo_runtime server_500)
     \<lparr> cfg_apiUrl = ''https://zaph.work/'', cfg_privateKey = ''not base58!'',
       cfg_network = None, cfg_useX402 = None, cfg_platformWallet = None \<rparr> world0 =
     (Inl (SdkError ValidationError
             ''Invalid private key format. Expected base58-encoded string.'' (Some 400)), world0)"
  using constructor_rejects_malformed_key [of "demo_runtime server_500"
     "\<lparr> cfg_apiUrl = ''https://zaph.work/'', cfg_privateKey = ''not base58!'',
       cfg_network = None, cfg_useX402 = None, cfg_platformWallet = None \<rparr>" world0]
  by (simp add: well_formed_key_def demo_runtime_def prod_eq_iff)

subsection \<open>claimFaucet\<close>

text \<open>
  C10.  On a client whose network is not devnet, \<^verbatim>\<open>claimFaucet\<close> returns a
  ValidationError, and the client (its session state included) and the world (the calls
  issued) are as they were: the guard comes before any request.
\<close>

theorem claimFaucet_not_devnet:
  "network c \<noteq> Devnet \<Longrightarrow>
   claimFaucet R c w =
     Some (Inl (SdkError ValidationError ''Faucet is only available on devnet'' (Some 400)), c, w)"
  by (simp add: claimFaucet_def new_ValidationError_def)

theorem claimFaucet_not_devnet_witness:
  "network (demo_client\<lparr>network := MainnetBeta\<rparr>) \<noteq> Devnet \<and>
   claimFaucet (demo_runtime server_500) (demo_client\<lparr>network := MainnetBeta\<rparr>) world0 =
     Some (Inl (SdkError ValidationError ''Faucet is only available on devnet'' (Some 400)),
           demo_client\<lparr>network := MainnetBeta\<rparr>, world0)"
  using claimFaucet_not_devnet [of "demo_client\<lparr>network := MainnetBeta\<rparr>" "demo_runtime server_500" world0]
  by (simp add: demo_client_def)

subsection \<open>The payment path\<close>

lemma makeX402Payment_throws:
  "makeX402Payment R c challenge w =
     (Inl (SdkError ZaphWorkError
        ''x402 payment not yet implemented in SDK. Use regular session auth for now.'' None), c, w)"
  by (simp add: makeX402Payment_def new_ZaphWorkError_def)

lemma requestWithX402Payment_402:
  assumes "fetch R (unauthenticated_call c endpoint options) w = (Responded r, w1)"
    and "status r = 402"
  shows "\<exists>e. requestWithX402Payment R c endpoint options w = (Inl e, c, w1)"
  using assms
  by (auto simp: requestWithX402Payment_def unauthenticated_call_def makeX402Payment_def
           split: option.splits sum.splits)

text \<open>
  C3.  \<^verbatim>\<open>makeX402Payment\<close> throws the same ZaphWorkError for every challenge, and so
  \<^verbatim>\<open>requestWithX402Payment\<close> ends in a thrown value whenever its first call is
  answered with status 402.
\<close>

theorem x402_payment_always_fails:
  "fst (makeX402Payment R c challenge w) =
     Inl (SdkError ZaphWorkError
        ''x402 payment not yet implemented in SDK. Use regular session auth for now.'' None)
   \<and> (fst (fetch R (unauthenticated_call c endpoint options) w) = Responded r \<and> status r = 402
        \<longrightarrow> isl (fst (requestWithX402Payment R c endpoint options w)))"
proof -
  have "isl (fst (requestWithX402Payment R c endpoint options w))"
    if h1: "fst (fetch R (unauthenticated_call c endpoint options) w) = Responded r"
      and h2: "status r = 402"
  proof -
    obtain w1 where "fetch R (unauthenticated_call c endpoint options) w = (Responded r, w1)"
      using h1 by (metis prod.collapse)
    from requestWithX402Payment_402[OF this h2] show ?thesis by auto
  qed
  then show ?thesis by (simp add: makeX402Payment_throws)
qed

theorem x402_payment_always_fails_witness:
  "fst (fetch (demo_runtime server_402) (unauthenticated_call demo_client ''/api/x402/tasks'' (post None)) world0)
     = Responded (reply 402 ''Payment Required''
         (Some (JObj [(''payment'', JObj [(''recipient'', JStr ''Platform''), (''amount'', JStr ''0.01'')])])))
   \<and> status (reply 402 ''Payment Required''
         (Some (JObj [(''payment'', JObj [(''recipient'', JStr ''Platform''), (''amount'', JStr ''0.01'')])]))) = 402
   \<and> isl (fst (requestWithX402Payment (demo_runtime server_402) demo_client ''/api/x402/tasks'' (post None) world0))"
  using x402_payment_always_fails [of "demo_runtime server_402" demo_client "Some JNull" world0 "''/api/x402/tasks''" "post None"
      "reply 402 ''Payment Required''
         (Some (JObj [(''payment'', JObj [(''recipient'', JStr ''Platform''), (''amount'', JStr ''0.01'')])]))"]
  by (simp add: demo_defs server_402_def)

lemma requestWithX402Payment_frame:
  "requestWithX402Payment R c endpoint options w = (res, c', w') \<Longrightarrow>
     c' = c \<and> calls w' = calls w @ [unauthenticated_call c endpoint options]
      \<and> clock w' = clock w + fst (server R (calls w) (unauthenticated_call c endpoint options))"
  by (auto simp: requestWithX402Payment_def unauthenticated_call_def makeX402Payment_def fetch_def
           split: prod.splits fetch_result.splits if_splits option.splits sum.splits)

lemma requestWithX402Payment_session_free:
  "requestWithX402Payment R (c\<lparr>authenticated := a, sessionCookie := s\<rparr>) endpoint options w =
     (case requestWithX402Payment R c endpoint options w of
        (res, c', w') \<Rightarrow> (res, c'\<lparr>authenticated := a, sessionCookie := s\<rparr>, w'))"
  by (auto simp: requestWithX402Payment_def makeX402Payment_def
           split: prod.splits fetch_result.splits if_splits option.splits sum.splits)

text \<open>
  C7.  \<^verbatim>\<open>requestWithX402Payment\<close> returns the client as it received it and adds one
  call to the calls issued.  That call carries the JSON content type and the caller's
  headers: its Cookie header is the caller's (none, when the options have no headers),
  and neither the call nor the outcome depends on the authenticated flag or the stored
  session cookie.
\<close>

theorem requestWithX402Payment_unauthenticated:
  "(case requestWithX402Payment R c endpoint options w of
      (res, c', w') \<Rightarrow>
        c' = c \<and> calls w' = calls w @ [unauthenticated_call c endpoint options])
   \<and> req_headers (unauthenticated_call c endpoint options) ''Cookie'' = caller_headers options ''Cookie''
   \<and> unauthenticated_call (c\<lparr>authenticated := a, sessionCookie := s\<rparr>) endpoint options
        = unauthenticated_call c endpoint options
   \<and> requestWithX402Payment R (c\<lparr>authenticated := a, sessionCookie := s\<rparr>) endpoint options w =
        (case requestWithX402Payment R c endpoint options w of
           (res, c', w') \<Rightarrow> (res, c'\<lparr>authenticated := a, sessionCookie := s\<rparr>, w'))"
proof -
  obtain res c' w' where out: "requestWithX402Payment R c endpoint options w = (res, c', w')"
    by (metis prod_cases3)
  from requestWithX402Payment_frame[OF out]
  have 1: "(case requestWithX402Payment R c endpoint options w of
      (res, c', w') \<Rightarrow>
        c' = c \<and> calls w' = calls w @ [unauthenticated_call c endpoint options])"
    by (simp add: out)
  have 2: "req_headers (unauthenticated_call c endpoint options) ''Cookie'' = caller_headers options ''Cookie''"
    by (simp add: unauthenticated_call_def json_headers_def map_add_def split: option.splits)
  have 3: "unauthenticated_call (c\<lparr>authenticated := a, sessionCookie := s\<rparr>) endpoint options
        = unauthenticated_call c endpoint options"
    by (simp add: unauthenticated_call_def)
  from 1 2 3 requestWithX402Payment_session_free[where R = R and a = a and s = s and c = c
      and endpoint = endpoint and options = options and w = w]
  show ?thesis by blast
qed

theorem requestWithX402Payment_unauthenticated_witness:
  "(case requestWithX402Payment (demo_runtime server_402) signed_in_client ''/api/x402/tasks'' (post None) world0 of
      (res, c', w') \<Rightarrow>
        c' = signed_in_client \<and>
        map req_headers (calls w') = [[''Content-Type'' \<mapsto> ''application/json'']])"
  using requestWithX402Payment_unauthenticated
          [where R = "demo_runtime server_402" and c = signed_in_client
             and endpoint = "''/api/x402/tasks''" and options = "post None" and w = world0
             and a = True and s = None]
  by (simp add: world0_def unauthenticated_call_def json_headers_def caller_headers_def post_def
        case_prod_beta)

subsection \<open>request: one step\<close>

lemma request_delegates:
  "startsWith endpoint ''/api/x402/'' \<and> useX402 c \<Longrightarrow>
   request R c endpoint options w = Some (requestWithX402Payment R c endpoint options w)"
  by (subst request.simps) simp

lemma request_session_unfold:
  "\<not> (startsWith endpoint ''/api/x402/'' \<and> useX402 c) \<Longrightarrow>
   request R c endpoint options w =
     (case ensure_session R c w of
        (Inl e, c1, w1) \<Rightarrow> Some (Inl e, c1, w1)
      | (Inr u, c1, w1) \<Rightarrow>
          (case fetch R (session_call c1 endpoint options) w1 of
             (Rejected reason, w2) \<Rightarrow> Some (Inl (fetch_failed reason), c1, w2)
           | (Responded r, w2) \<Rightarrow>
               if status r = 401
               then request R (c1\<lparr>authenticated := False, sessionCookie := None\<rparr>) endpoint options w2
               else if \<not> ok r then Some (Inl (not_ok_error R r), c1, w2)
               else Some (return_json r, c1, w2)))"
  by (subst request.simps)
     (auto simp add: ensure_session_def session_call_def
           split: prod.splits sum.splits fetch_result.splits)

lemma request_session_path:
  "\<not> (startsWith endpoint ''/api/x402/'' \<and> useX402 c) \<Longrightarrow>
   ensure_session R c w = (Inr u, c1, w1) \<Longrightarrow>
   fetch R (session_call c1 endpoint options) w1 = (Responded r, w2) \<Longrightarrow>
   request R c endpoint options w =
     (if status r = 401
      then request R (c1\<lparr>authenticated := False, sessionCookie := None\<rparr>) endpoint options w2
      else if \<not> ok r then Some (Inl (not_ok_error R r), c1, w2)
      else Some (return_json r, c1, w2))"
  by (subst request.simps) (auto simp add: ensure_session_def session_call_def)

lemma not_ok_error_not_json:
  "json_body r = None \<Longrightarrow>
   not_ok_error R r = SdkError ZaphWorkError ''Unknown error'' (Some (status r))"
  by (simp add: not_ok_error_def or_message_def new_ZaphWorkError_def)

lemma not_ok_error_member:
  "json_body r = Some j \<Longrightarrow> get_prop j ''error'' = Inr (Some v) \<Longrightarrow> truthy v \<Longrightarrow>
   js_String (number_toString R) v = Inr message \<Longrightarrow>
   not_ok_error R r = SdkError ZaphWorkError message (Some (status r))"
  by (simp add: not_ok_error_def or_message_def new_ZaphWorkError_def)

lemma not_ok_error_no_member:
  "json_body r = Some j \<Longrightarrow> get_prop j ''error'' = Inr v \<Longrightarrow>
   (case v of None \<Rightarrow> True | Some x \<Rightarrow> \<not> truthy x) \<Longrightarrow>
   not_ok_error R r =
     SdkError ZaphWorkError (''Request failed: '' @ statusText r) (Some (status r))"
  by (simp add: not_ok_error_def or_message_def new_ZaphWorkError_def split: option.splits)

text \<open>
  Two bodies make the construction of the error itself throw a TypeError, which carries
  no status code: the JSON value null, and an error member that is an object with a
  \<^verbatim>\<open>toString\<close> member of its own.
\<close>

lemma not_ok_error_null_body:
  "json_body r = Some JNull \<Longrightarrow>
   not_ok_error R r = JsError ''TypeError'' ''Cannot read properties of null (reading error)''"
  by (simp add: not_ok_error_def)

lemma not_ok_error_unconvertible:
  "json_body r = Some (JObj [(''error'', JObj [(''toString'', JNum 1)])]) \<Longrightarrow>
   not_ok_error R r = JsError ''TypeError'' ''Cannot convert object to primitive value''"
  by (simp add: not_ok_error_def or_message_def cannot_convert_def)

text \<open>
  C2, as amended.  On the session path, a response that is neither 401 nor ok makes
  \<^verbatim>\<open>request\<close> throw a ZaphWorkError with the response's status code in three cases.
  When the body is not JSON the message is \<^verbatim>\<open>Unknown error\<close>.  When the body is JSON with
  a truthy error member that converts to a string (a string converts to itself), the
  message is that string.  When the body is JSON, not null, without a truthy error member,
  the message is \<^verbatim>\<open>Request failed: \<close> followed by the status text.
\<close>

theorem request_not_ok_throws:
  assumes "\<not> (startsWith endpoint ''/api/x402/'' \<and> useX402 c)"
    and "ensure_session R c w = (Inr u, c1, w1)"
    and "fetch R (session_call c1 endpoint options) w1 = (Responded r, w2)"
    and "status r \<noteq> 401" and "\<not> ok r"
  shows "(json_body r = None \<longrightarrow>
            request R c endpoint options w =
              Some (Inl (SdkError ZaphWorkError ''Unknown error'' (Some (status r))), c1, w2))
       \<and> (json_body r = Some j \<and> get_prop j ''error'' = Inr (Some v) \<and> truthy v
            \<and> js_String (number_toString R) v = Inr message \<longrightarrow>
            request R c endpoint options w =
              Some (Inl (SdkError ZaphWorkError message (Some (status r))), c1, w2))
       \<and> (js_String (number_toString R) (JStr s) = Inr s)
       \<and> (json_body r = Some j \<and> get_prop j ''error'' = Inr v'
            \<and> (case v' of None \<Rightarrow> True | Some x \<Rightarrow> \<not> truthy x) \<longrightarrow>
            request R c endpoint options w =
              Some (Inl (SdkError ZaphWorkError (''Request failed: '' @ statusText r)
                           (Some (status r))), c1, w2))"
proof -
  have "request R c endpoint options w = Some (Inl (not_ok_error R r), c1, w2)"
    using request_session_path[OF assms(1,2,3)] assms(4,5) by simp
  then show ?thesis
    using not_ok_error_not_json[of r R] not_ok_error_member[of r j v R message]
      not_ok_error_no_member[of r j v' R]
    by auto
qed

theorem request_not_ok_throws_witness:
  "request (demo_runtime server_500) signed_in_client ''/api/tasks/9'' no_options world0 =
     Some (Inl (SdkError ZaphWorkError ''Unknown error'' (Some 500)), signed_in_client,
           \<lparr> calls = [session_call signed_in_client ''/api/tasks/9'' no_options], clock = 1005 \<rparr>)
   \<and> request (demo_runtime server_404) signed_in_client ''/api/tasks/9'' no_options world0 =
     Some (Inl (SdkError ZaphWorkError ''Task not found'' (Some 404)), signed_in_client,
           \<lparr> calls = [session_call signed_in_client ''/api/tasks/9'' no_options], clock = 1005 \<rparr>)
   \<and> request (demo_runtime server_400) signed_in_client ''/api/tasks/9'' no_options world0 =
     Some (Inl (SdkError ZaphWorkError ''Request failed: Bad Request'' (Some 400)), signed_in_client,
           \<lparr> calls = [session_call signed_in_client ''/api/tasks/9'' no_options], clock = 1005 \<rparr>)"
proof -
  let ?w2 = "\<lparr> calls = [session_call signed_in_client ''/api/tasks/9'' no_options], clock = 1005 \<rparr>"
  have p: "\<not> (startsWith ''/api/tasks/9'' ''/api/x402/'' \<and> useX402 signed_in_client)"
    by (simp add: startsWith_def)
  have e: "ensure_session R signed_in_client world0 = (Inr (), signed_in_client, world0)" for R
    by (simp add: ensure_session_def signed_in_client_def)
  have f5: "fetch (demo_runtime server_500) (session_call signed_in_client ''/api/tasks/9'' no_options) world0
              = (Responded (reply 500 ''Internal Server Error'' None), ?w2)"
    by (simp add: fetch_def demo_runtime_def server_500_def scripted_def world0_def)
  have f4: "fetch (demo_runtime server_404) (session_call signed_in_client ''/api/tasks/9'' no_options) world0
              = (Responded (reply 404 ''Not Found'' (Some (JObj [(''error'', JStr ''Task not found'')]))), ?w2)"
    by (simp add: fetch_def demo_runtime_def server_404_def scripted_def world0_def)
  have f0: "fetch (demo_runtime server_400) (session_call signed_in_client ''/api/tasks/9'' no_options) world0
              = (Responded (reply 400 ''Bad Request'' (Some (JObj [(''detail'', JStr ''title is required'')]))), ?w2)"
    by (simp add: fetch_def demo_runtime_def server_400_def scripted_def world0_def)
  have a: "request (demo_runtime server_500) signed_in_client ''/api/tasks/9'' no_options world0 =
     Some (Inl (SdkError ZaphWorkError ''Unknown error'' (Some 500)), signed_in_client, ?w2)"
    using request_not_ok_throws[OF p e f5] by (simp add: reply_def ok_def)
  have b: "request (demo_runtime server_404) signed_in_client ''/api/tasks/9'' no_options world0 =
     Some (Inl (SdkError ZaphWorkError ''Task not found'' (Some 404)), signed_in_client, ?w2)"
    using request_not_ok_throws[OF p e f4, where j = "JObj [(''error'', JStr ''Task not found'')]"
        and v = "JStr ''Task not found''" and message = "''Task not found''"]
    by (simp add: reply_def ok_def)
  have c: "request (demo_runtime server_400) signed_in_client ''/api/tasks/9'' no_options world0 =
     Some (Inl (SdkError ZaphWorkError ''Request failed: Bad Request'' (Some 400)), signed_in_client, ?w2)"
    using request_not_ok_throws[OF p e f0, where j = "JObj [(''detail'', JStr ''title is required'')]"
        and v' = None]
    by (simp add: reply_def ok_def)
  from a b c show ?thesis by blast
qed

text \<open>
  C2 as stated fails: a 500 response whose body is not JSON gives the message
  \<^verbatim>\<open>Unknown error\<close>, not the status text.
\<close>

theorem request_unparseable_body_counterexample:
  "map_option fst (request (demo_runtime server_500) signed_in_client ''/api/wallet/balance'' no_options world0)
     = Some (Inl (SdkError ZaphWorkError ''Unknown error'' (Some 500)))
   \<and> json_body (reply 500 ''Internal Server Error'' None) = None
   \<and> ''Unknown error'' \<noteq> ''Request failed: '' @ statusText (reply 500 ''Internal Server Error'' None)
   \<and> ''Unknown error'' \<noteq> statusText (reply 500 ''Internal Server Error'' None)"
  by (subst request.simps)
     (simp add: demo_defs server_500_def startsWith_def ok_def not_ok_error_def or_message_def
        new_ZaphWorkError_def)

subsection \<open>request: the retry after a 401\<close>

lemma keeps_answering_401_fetch:
  assumes "keeps_answering_401 R u"
  obtains r w' where "fetch R req w = (Responded r, w')"
    and "if url req = u then status r = 401 else ok r"
proof -
  obtain dt res where s: "server R (calls w) req = (dt, res)" by (metis surj_pair)
  with assms have "case res of Rejected reason \<Rightarrow> False
                   | Responded r \<Rightarrow> if url req = u then status r = 401 else ok r"
    unfolding keeps_answering_401_def by (metis snd_conv)
  then obtain r where "res = Responded r" "if url req = u then status r = 401 else ok r"
    by (cases res) auto
  with s that show ?thesis by (simp add: fetch_def)
qed

lemma authenticate_accepted:
  assumes srv: "keeps_answering_401 R (apiUrl c @ endpoint)"
    and e1: "endpoint \<noteq> ''/api/auth/wallet/connect''"
    and e2: "endpoint \<noteq> ''/api/auth/session''"
  shows "\<exists>c1 w1. authenticate R c w = (Inr (), c1, w1) \<and> apiUrl c1 = apiUrl c \<and> useX402 c1 = useX402 c"
proof -
  let ?req1 = "\<lparr> url = apiUrl c @ ''/api/auth/wallet/connect'', req_method = Some ''POST'',
       req_headers = json_headers,
       req_body = Some (JSON_stringify R (object_literal
                       [(''walletAddress'', Some (JStr (getAddress c))),
                        (''walletType'', Some (JStr ''phantom''))])) \<rparr>"
  obtain r1 w1 where f1: "fetch R ?req1 w = (Responded r1, w1)" and ok1: "ok r1"
    using keeps_answering_401_fetch[OF srv, of ?req1 w] e1 by auto
  let ?msg = "sign_in_message (getAddress c) (clock w1)"
  let ?req2 = "\<lparr> url = apiUrl c @ ''/api/auth/session'', req_method = Some ''POST'',
       req_headers = json_headers,
       req_body = Some (JSON_stringify R (object_literal
                                [(''walletAddress'', Some (JStr (getAddress c))),
                                 (''signature'', Some (JStr (sign_base58 R (secretKey (keypair c)) ?msg))),
                                 (''message'', Some (JStr ?msg))])) \<rparr>"
  obtain r2 w2 where f2: "fetch R ?req2 w1 = (Responded r2, w2)" and ok2: "ok r2"
    using keeps_answering_401_fetch[OF srv, of ?req2 w1] e2 by auto
  show ?thesis
    using f1 ok1 f2 ok2 by (simp add: authenticate_def authenticate_try_def Let_def)
qed

lemma request_never_returns_aux:
  assumes h: "request R c endpoint options w = Some y"
  shows "\<not> (keeps_answering_401 R (apiUrl c @ endpoint)
            \<and> endpoint \<noteq> ''/api/auth/wallet/connect''
            \<and> endpoint \<noteq> ''/api/auth/session''
            \<and> \<not> (startsWith endpoint ''/api/x402/'' \<and> useX402 c))"
  apply (rule request.raw_induct[OF _ h])
  subgoal premises prems for req R c endpoint options w y
  proof
    assume a: "keeps_answering_401 R (apiUrl c @ endpoint)
            \<and> endpoint \<noteq> ''/api/auth/wallet/connect''
            \<and> endpoint \<noteq> ''/api/auth/session''
            \<and> \<not> (startsWith endpoint ''/api/x402/'' \<and> useX402 c)"
    obtain c1 w1 where s: "(if \<not> authenticated c then authenticate R c w else (Inr (), c, w)) = (Inr (), c1, w1)"
      and same: "apiUrl c1 = apiUrl c" "useX402 c1 = useX402 c"
      using authenticate_accepted[of R c endpoint w] a by (cases "authenticated c") auto
    obtain r w2 where f: "fetch R \<lparr>url = apiUrl c1 @ endpoint, req_method = opt_method options,
                     req_headers = session_headers c1 options, req_body = opt_body options\<rparr> w1 = (Responded r, w2)"
      and st: "status r = 401"
      using keeps_answering_401_fetch[of R "apiUrl c @ endpoint"
               "\<lparr>url = apiUrl c1 @ endpoint, req_method = opt_method options,
                     req_headers = session_headers c1 options, req_body = opt_body options\<rparr>" w1] a same
      by auto
    from prems(2) a s f st
    have "req R (c1\<lparr>authenticated := False, sessionCookie := None\<rparr>) endpoint options w2 = Some y"
      by auto
    from prems(1)[OF this] a same show False by simp
  qed
  done

lemma request_never_returns:
  "keeps_answering_401 R (apiUrl c @ endpoint) \<Longrightarrow>
   endpoint \<noteq> ''/api/auth/wallet/connect'' \<Longrightarrow>
   endpoint \<noteq> ''/api/auth/session'' \<Longrightarrow>
   \<not> (startsWith endpoint ''/api/x402/'' \<and> useX402 c) \<Longrightarrow>
   request R c endpoint options w = None"
  using request_never_returns_aux[of R c endpoint options w] by (cases "request R c endpoint options w") auto

text \<open>
  C1, as amended.  A 401 on the session path makes \<^verbatim>\<open>request\<close> clear the session
  state and call itself with the same endpoint and options; the outcome of that call is
  its outcome.  Nothing bounds the retries: against a server that accepts every handshake
  and answers 401 at the endpoint, \<^verbatim>\<open>request\<close> never returns.
\<close>

theorem request_401_reinvokes:
  "(\<not> (startsWith endpoint ''/api/x402/'' \<and> useX402 c)
      \<and> ensure_session R c w = (Inr u, c1, w1)
      \<and> fetch R (session_call c1 endpoint options) w1 = (Responded r, w2)
      \<and> status r = 401
    \<longrightarrow> request R c endpoint options w =
          request R (c1\<lparr>authenticated := False, sessionCookie := None\<rparr>) endpoint options w2)
   \<and> (keeps_answering_401 R (apiUrl c @ endpoint)
      \<and> endpoint \<noteq> ''/api/auth/wallet/connect''
      \<and> endpoint \<noteq> ''/api/auth/session''
      \<and> \<not> (startsWith endpoint ''/api/x402/'' \<and> useX402 c)
    \<longrightarrow> request R c endpoint options w = None)"
  using request_session_path[of endpoint c R w u c1 w1 options r w2]
        request_never_returns[of R c endpoint options w]
  by auto

theorem request_401_reinvokes_witness:
  "keeps_answering_401 (demo_runtime (server_always_401 ''https://zaph.work/api/wallet/balance''))
      (apiUrl signed_in_client @ ''/api/wallet/balance'')
   \<and> status (reply 401 ''Unauthorized'' None) = 401
   \<and> request (demo_runtime (server_always_401 ''https://zaph.work/api/wallet/balance''))
        signed_in_client ''/api/wallet/balance'' no_options world0
      = request (demo_runtime (server_always_401 ''https://zaph.work/api/wallet/balance''))
          (signed_in_client\<lparr>authenticated := False, sessionCookie := None\<rparr>)
          ''/api/wallet/balance'' no_options
          \<lparr> calls = [session_call signed_in_client ''/api/wallet/balance'' no_options], clock = 1001 \<rparr>
   \<and> request (demo_runtime (server_always_401 ''https://zaph.work/api/wallet/balance''))
        signed_in_client ''/api/wallet/balance'' no_options world0 = None"
proof -
  let ?R = "demo_runtime (server_always_401 ''https://zaph.work/api/wallet/balance'')"
  let ?w2 = "\<lparr> calls = [session_call signed_in_client ''/api/wallet/balance'' no_options], clock = 1001 \<rparr>"
  have h1: "\<not> (startsWith ''/api/wallet/balance'' ''/api/x402/'' \<and> useX402 signed_in_client)"
    by (simp add: startsWith_def)
  have h2: "ensure_session ?R signed_in_client world0 = (Inr (), signed_in_client, world0)"
    by (simp add: ensure_session_def signed_in_client_def)
  have h3: "fetch ?R (session_call signed_in_client ''/api/wallet/balance'' no_options) world0
              = (Responded (reply 401 ''Unauthorized'' None), ?w2)"
    by (simp add: fetch_def demo_runtime_def server_always_401_def session_call_def world0_def
          signed_in_client_def demo_client_def)
  have h4: "status (reply 401 ''Unauthorized'' None) = 401"
    by (simp add: reply_def)
  have h5: "keeps_answering_401 ?R (apiUrl signed_in_client @ ''/api/wallet/balance'')"
    by (simp add: keeps_answering_401_def demo_runtime_def server_always_401_def reply_def ok_def
          signed_in_client_def demo_client_def)
  have h6: "''/api/wallet/balance'' \<noteq> ''/api/auth/wallet/connect''"
           "''/api/wallet/balance'' \<noteq> ''/api/auth/session''"
    by simp_all
  from request_401_reinvokes [where R = ?R
      and c = signed_in_client and endpoint = "''/api/wallet/balance''" and options = no_options
      and w = world0 and u = "()" and ?c1.0 = signed_in_client and ?w1.0 = world0
      and r = "reply 401 ''Unauthorized'' None" and ?w2.0 = ?w2]
    h1 h2 h3 h4 h5 h6
  show ?thesis by blast
qed

text \<open>
  C1 as stated fails: after two consecutive 401 answers \<^verbatim>\<open>request\<close> has not thrown;
  it retries a second time (seven calls in all, two handshakes among them) and returns
  the body of the third answer.
\<close>

theorem request_retries_twice_counterexample:
  "map_option result_and_urls
     (request (demo_runtime server_two_401) signed_in_client ''/api/wallet/balance'' no_options world0)
   = Some (Inr (JObj [(''balance'', JNum 7)]),
           [''https://zaph.work/api/wallet/balance'',
            ''https://zaph.work/api/auth/wallet/connect'',
            ''https://zaph.work/api/auth/session'',
            ''https://zaph.work/api/wallet/balance'',
            ''https://zaph.work/api/auth/wallet/connect'',
            ''https://zaph.work/api/auth/session'',
            ''https://zaph.work/api/wallet/balance''])"
  apply (subst request.simps)
  apply (simp add: demo_defs server_two_401_def startsWith_def ok_def session_reply_def
        authenticate_def authenticate_try_def Let_def getAddress_def return_json_def)
  apply (subst request.simps)
  apply (simp add: demo_defs server_two_401_def startsWith_def ok_def session_reply_def
        authenticate_def authenticate_try_def Let_def getAddress_def return_json_def)
  apply (subst request.simps)
  apply (simp add: demo_defs server_two_401_def startsWith_def ok_def session_reply_def
        authenticate_def authenticate_try_def Let_def getAddress_def return_json_def
        result_and_urls_def)
  done

subsection \<open>request: routing\<close>

lemma authenticate_try_useX402:
  "authenticate_try R (c\<lparr>useX402 := b\<rparr>) w = with_useX402 b (authenticate_try R c w)"
  by (simp add: authenticate_try_def getAddress_def Let_def with_useX402_def
           split: prod.splits fetch_result.splits option.splits sum.splits)

lemma authenticate_useX402:
  "authenticate R (c\<lparr>useX402 := b\<rparr>) w = with_useX402 b (authenticate R c w)"
  by (simp add: authenticate_def authenticate_try_useX402 with_useX402_def split: prod.splits sum.splits)

lemma session_headers_useX402 [simp]:
  "session_headers (c\<lparr>useX402 := b\<rparr>) options = session_headers c options"
  by (simp add: session_headers_def)

lemma useX402_update_last:
  "c\<lparr>useX402 := b, authenticated := a, sessionCookie := s\<rparr>
     = c\<lparr>authenticated := a, sessionCookie := s, useX402 := b\<rparr>"
  by (cases c) simp

lemma request_useX402_Some:
  assumes h: "request R c endpoint options w = Some y"
  shows "\<not> startsWith endpoint ''/api/x402/'' \<longrightarrow>
         (\<forall>b. request R (c\<lparr>useX402 := b\<rparr>) endpoint options w = Some (with_useX402 b y))"
  apply (rule request.raw_induct[OF _ h])
  subgoal premises prems for req R c endpoint options w y
  proof (intro impI allI)
    fix b
    assume np: "\<not> startsWith endpoint ''/api/x402/''"
    obtain ra c1 w1 where a: "(if \<not> authenticated c then authenticate R c w else (Inr (), c, w)) = (ra, c1, w1)"
      by (metis prod_cases3)
    have a': "(if \<not> authenticated c then authenticate R (c\<lparr>useX402 := b\<rparr>) w else (Inr (), c\<lparr>useX402 := b\<rparr>, w))
               = (ra, c1\<lparr>useX402 := b\<rparr>, w1)"
      using a by (auto simp: authenticate_useX402 with_useX402_def split: if_splits)
    show "request R (c\<lparr>useX402 := b\<rparr>) endpoint options w = Some (with_useX402 b y)"
    proof (cases ra)
      case (Inl e)
      with prems(2) np a a' show ?thesis
        by (subst request.simps) (auto simp add: with_useX402_def)
    next
      case (Inr u)
      obtain fr w2 where f: "fetch R \<lparr>url = apiUrl c1 @ endpoint, req_method = opt_method options,
                 req_headers = session_headers c1 options, req_body = opt_body options\<rparr> w1 = (fr, w2)"
        by (metis surj_pair)
      show ?thesis
      proof (cases fr)
        case (Rejected reason)
        with prems(2) np a a' Inr f show ?thesis
          by (subst request.simps) (auto simp add: with_useX402_def)
      next
        case (Responded r)
        show ?thesis
        proof (cases "status r = 401")
          case True
          with prems(2) np a Inr f Responded
          have "req R (c1\<lparr>authenticated := False, sessionCookie := None\<rparr>) endpoint options w2 = Some y"
            by simp
          from prems(1)[OF this] np
          have "request R (c1\<lparr>authenticated := False, sessionCookie := None, useX402 := b\<rparr>) endpoint options w2
                 = Some (with_useX402 b y)" by simp
          with np a' Inr f Responded True show ?thesis
            by (subst request.simps) (simp add: useX402_update_last)
        next
          case False
          with prems(2) np a a' Inr f Responded show ?thesis
            by (subst request.simps) (auto simp add: with_useX402_def)
        qed
      qed
    qed
  qed
  done

lemma request_useX402:
  assumes np: "\<not> startsWith endpoint ''/api/x402/''"
  shows "request R (c\<lparr>useX402 := b\<rparr>) endpoint options w
           = map_option (with_useX402 b) (request R c endpoint options w)"
proof (cases "request R c endpoint options w")
  case (Some y)
  with request_useX402_Some[OF Some] np show ?thesis by simp
next
  case None
  show ?thesis
  proof (cases "request R (c\<lparr>useX402 := b\<rparr>) endpoint options w")
    case n: None
    with None show ?thesis by simp
  next
    case (Some y)
    from request_useX402_Some[OF Some] np
    have "request R (c\<lparr>useX402 := b, useX402 := useX402 c\<rparr>) endpoint options w
            = Some (with_useX402 (useX402 c) y)"
      by blast
    with None show ?thesis by simp
  qed
qed

lemma authenticate_try_outcome:
  "authenticate_try R c w = (Inr u, c1, w1) \<Longrightarrow>
   authenticated c1 \<and>
   map url (drop (length (calls w)) (calls w1))
     = [apiUrl c @ ''/api/auth/wallet/connect'', apiUrl c @ ''/api/auth/session'']"
  unfolding authenticate_try_def Let_def fetch_def
  by (auto split: prod.splits fetch_result.splits if_splits option.splits sum.splits)

lemma authenticate_outcome:
  "authenticate R c w = (Inr u, c1, w1) \<Longrightarrow>
   authenticated c1 \<and>
   map url (drop (length (calls w)) (calls w1))
     = [apiUrl c @ ''/api/auth/wallet/connect'', apiUrl c @ ''/api/auth/session'']"
  by (auto simp: authenticate_def split: prod.splits sum.splits dest: authenticate_try_outcome)

lemma session_call_carries:
  "url (session_call c endpoint options) = apiUrl c @ endpoint
   \<and> req_method (session_call c endpoint options) = opt_method options
   \<and> req_body (session_call c endpoint options) = opt_body options
   \<and> req_headers (session_call c endpoint options) ''Cookie''
        = (case sessionCookie c of
             None \<Rightarrow> caller_headers options ''Cookie''
           | Some cookie \<Rightarrow> if cookie = [] then caller_headers options ''Cookie''
                            else Some (''session='' @ cookie))
   \<and> req_headers (session_call c endpoint options) ''Content-Type''
        = (case caller_headers options ''Content-Type'' of
             None \<Rightarrow> Some ''application/json''
           | Some t \<Rightarrow> Some t)"
  by (auto simp: session_call_def session_headers_def json_headers_def map_add_def
           split: option.splits)

text \<open>
  C5.  \<^verbatim>\<open>request\<close> hands the call to \<^verbatim>\<open>requestWithX402Payment\<close> when the endpoint
  starts with \<^verbatim>\<open>/api/x402/\<close> and useX402 is set.  For an endpoint outside the prefix
  the flag changes nothing but its own value in the returned client.  Whenever the two
  conditions do not both hold, the call takes the session path: the handshake when the
  session is not authenticated (two calls, connect and session, after which it is
  authenticated), then one call to the endpoint with the method and body of the options,
  the JSON content type unless the caller set one, and the Cookie header
  \<^verbatim>\<open>session=<cookie>\<close> whenever a non-empty session cookie is stored (the caller's Cookie
  header otherwise); a 401 clears the session and starts over.  \<^verbatim>\<open>createTask\<close> picks
  the payment-gated endpoint when useX402 is set, and is then delegated.
\<close>

theorem request_routing:
  "(startsWith endpoint ''/api/x402/'' \<and> useX402 c \<longrightarrow>
      request R c endpoint options w = Some (requestWithX402Payment R c endpoint options w))
   \<and> (\<not> startsWith endpoint ''/api/x402/'' \<longrightarrow>
      request R (c\<lparr>useX402 := b\<rparr>) endpoint options w
        = map_option (with_useX402 b) (request R c endpoint options w))
   \<and> (\<not> (startsWith endpoint ''/api/x402/'' \<and> useX402 c) \<longrightarrow>
      request R c endpoint options w =
        (case ensure_session R c w of
           (Inl e, c1, w1) \<Rightarrow> Some (Inl e, c1, w1)
         | (Inr u, c1, w1) \<Rightarrow>
             (case fetch R (session_call c1 endpoint options) w1 of
                (Rejected reason, w2) \<Rightarrow> Some (Inl (fetch_failed reason), c1, w2)
              | (Responded r, w2) \<Rightarrow>
                  if status r = 401
                  then request R (c1\<lparr>authenticated := False, sessionCookie := None\<rparr>) endpoint options w2
                  else if \<not> ok r then Some (Inl (not_ok_error R r), c1, w2)
                  else Some (return_json r, c1, w2))))
   \<and> (useX402 c \<and> createTask_body params = Inr body \<longrightarrow>
      createTask R c params w =
        Some (unwrap ''task''
                (requestWithX402Payment R c ''/api/x402/tasks'' (post (Some (JSON_stringify R body))) w)))
   \<and> ensure_session R c w = (if authenticated c then (Inr (), c, w) else authenticate R c w)
   \<and> (authenticate R c w = (Inr u', c', w') \<longrightarrow>
        authenticated c' \<and>
        map url (drop (length (calls w)) (calls w'))
          = [apiUrl c @ ''/api/auth/wallet/connect'', apiUrl c @ ''/api/auth/session''])
   \<and> fetch R q w = (fst (fetch R q w), w\<lparr>calls := calls w @ [q], clock := clock (snd (fetch R q w))\<rparr>)
   \<and> url (session_call c endpoint options) = apiUrl c @ endpoint
   \<and> req_method (session_call c endpoint options) = opt_method options
   \<and> req_body (session_call c endpoint options) = opt_body options
   \<and> req_headers (session_call c endpoint options) ''Cookie''
        = (case sessionCookie c of
             None \<Rightarrow> caller_headers options ''Cookie''
           | Some cookie \<Rightarrow> if cookie = [] then caller_headers options ''Cookie''
                            else Some (''session='' @ cookie))
   \<and> req_headers (session_call c endpoint options) ''Content-Type''
        = (case caller_headers options ''Content-Type'' of
             None \<Rightarrow> Some ''application/json''
           | Some t \<Rightarrow> Some t)"
proof -
  have 4: "createTask R c params w =
        Some (unwrap ''task''
                (requestWithX402Payment R c ''/api/x402/tasks'' (post (Some (JSON_stringify R body))) w))"
    if "useX402 c" "createTask_body params = Inr body"
    using that request_delegates[where endpoint = "''/api/x402/tasks''" and c = c and R = R
               and options = "post (Some (JSON_stringify R body))" and w = w]
    by (simp add: createTask_def startsWith_def)
  have 5: "ensure_session R c w = (if authenticated c then (Inr (), c, w) else authenticate R c w)"
    by (simp add: ensure_session_def)
  have 6: "fetch R q w = (fst (fetch R q w), w\<lparr>calls := calls w @ [q], clock := clock (snd (fetch R q w))\<rparr>)"
    by (simp add: fetch_def split: prod.splits)
  from 4 5 6 request_delegates[where endpoint = endpoint and c = c and R = R and options = options and w = w]
    request_useX402[where endpoint = endpoint and c = c and R = R and options = options and w = w and b = b]
    request_session_unfold[where endpoint = endpoint and c = c and R = R and options = options and w = w]
    authenticate_outcome[of R c w u' c' w']
    session_call_carries[of c endpoint options]
  show ?thesis by blast
qed


theorem request_routing_witness:
  "startsWith ''/api/x402/tasks'' ''/api/x402/'' \<and> useX402 (demo_client\<lparr>useX402 := True\<rparr>)
   \<and> request (demo_runtime server_402) (demo_client\<lparr>useX402 := True\<rparr>) ''/api/x402/tasks'' (post None) world0
        = Some (requestWithX402Payment (demo_runtime server_402) (demo_client\<lparr>useX402 := True\<rparr>)
                  ''/api/x402/tasks'' (post None) world0)
   \<and> \<not> startsWith ''/api/tasks/9'' ''/api/x402/''
   \<and> request (demo_runtime server_404) (signed_in_client\<lparr>useX402 := True\<rparr>) ''/api/tasks/9'' no_options world0
        = map_option (with_useX402 True)
            (request (demo_runtime server_404) signed_in_client ''/api/tasks/9'' no_options world0)
   \<and> createTask_body demo_params
        = Inr (JObj [(''title'', JStr ''t''), (''description'', JStr ''d''), (''category'', JStr ''data''),
                (''payment_amount'', JNum 5), (''currency'', JStr ''USDC''),
                (''workers_needed'', JNum 1)])
   \<and> createTask (demo_runtime server_402) (demo_client\<lparr>useX402 := True\<rparr>) demo_params world0
        = Some (unwrap ''task''
                  (requestWithX402Payment (demo_runtime server_402) (demo_client\<lparr>useX402 := True\<rparr>)
                     ''/api/x402/tasks'' (post (Some ''json'')) world0))
   \<and> map_option result_and_cookies
         (request (demo_runtime server_handshake_ok) (demo_client\<lparr>useX402 := True\<rparr>)
            ''/api/wallet/balance'' no_options world0)
        = Some (Inr (JObj [(''balance'', JNum 7)]), [None, None, Some ''session=tok''])
   \<and> map_option result_and_urls
         (request (demo_runtime server_handshake_ok) (demo_client\<lparr>useX402 := True\<rparr>)
            ''/api/wallet/balance'' no_options world0)
        = Some (Inr (JObj [(''balance'', JNum 7)]),
                [''https://zaph.work/api/auth/wallet/connect'',
                 ''https://zaph.work/api/auth/session'',
                 ''https://zaph.work/api/wallet/balance''])"
proof -
  have h1: "startsWith ''/api/x402/tasks'' ''/api/x402/''" "useX402 (demo_client\<lparr>useX402 := True\<rparr>)"
    "\<not> startsWith ''/api/tasks/9'' ''/api/x402/''"
    "\<not> (startsWith ''/api/wallet/balance'' ''/api/x402/'' \<and> useX402 (demo_client\<lparr>useX402 := True\<rparr>))"
    by (simp_all add: startsWith_def)
  have h2: "createTask_body demo_params
        = Inr (JObj [(''title'', JStr ''t''), (''description'', JStr ''d''), (''category'', JStr ''data''),
                (''payment_amount'', JNum 5), (''currency'', JStr ''USDC''),
                (''workers_needed'', JNum 1)])"
    by (simp add: createTask_body_def demo_params_def deadline_iso_def currency_or_default_def
          workers_or_default_def)
  have h3: "JSON_stringify (demo_runtime server_402) j = ''json''" for j
    by (simp add: demo_runtime_def)
  note thm1 = request_routing[where R = "demo_runtime server_402" and c = "demo_client\<lparr>useX402 := True\<rparr>"
      and endpoint = "''/api/x402/tasks''" and options = "post None" and w = world0
      and params = demo_params
      and body = "JObj [(''title'', JStr ''t''), (''description'', JStr ''d''), (''category'', JStr ''data''),
                (''payment_amount'', JNum 5), (''currency'', JStr ''USDC''),
                (''workers_needed'', JNum 1)]"]
  from thm1[THEN conjunct1] h1
  have a: "request (demo_runtime server_402) (demo_client\<lparr>useX402 := True\<rparr>) ''/api/x402/tasks'' (post None) world0
        = Some (requestWithX402Payment (demo_runtime server_402) (demo_client\<lparr>useX402 := True\<rparr>)
                  ''/api/x402/tasks'' (post None) world0)"
    by blast
  from thm1[THEN conjunct2, THEN conjunct2, THEN conjunct2, THEN conjunct1] h1 h2
  have b: "createTask (demo_runtime server_402) (demo_client\<lparr>useX402 := True\<rparr>) demo_params world0
        = Some (unwrap ''task''
                  (requestWithX402Payment (demo_runtime server_402) (demo_client\<lparr>useX402 := True\<rparr>)
                     ''/api/x402/tasks'' (post (Some ''json'')) world0))"
    by (simp add: h3)
  from request_routing[where R = "demo_runtime server_404" and c = signed_in_client
      and endpoint = "''/api/tasks/9''" and options = no_options and w = world0 and b = True,
      THEN conjunct2, THEN conjunct1] h1
  have c: "request (demo_runtime server_404) (signed_in_client\<lparr>useX402 := True\<rparr>) ''/api/tasks/9'' no_options world0
        = map_option (with_useX402 True)
            (request (demo_runtime server_404) signed_in_client ''/api/tasks/9'' no_options world0)"
    by blast
  from request_routing[where R = "demo_runtime server_handshake_ok"
      and c = "demo_client\<lparr>useX402 := True\<rparr>"
      and endpoint = "''/api/wallet/balance''" and options = no_options and w = world0,
      THEN conjunct2, THEN conjunct2, THEN conjunct1] h1(4)
  have run: "request (demo_runtime server_handshake_ok) (demo_client\<lparr>useX402 := True\<rparr>)
            ''/api/wallet/balance'' no_options world0
        = (case ensure_session (demo_runtime server_handshake_ok) (demo_client\<lparr>useX402 := True\<rparr>) world0 of
           (Inl e, c1, w1) \<Rightarrow> Some (Inl e, c1, w1)
         | (Inr u, c1, w1) \<Rightarrow>
             (case fetch (demo_runtime server_handshake_ok) (session_call c1 ''/api/wallet/balance'' no_options) w1 of
                (Rejected reason, w2) \<Rightarrow> Some (Inl (fetch_failed reason), c1, w2)
              | (Responded r, w2) \<Rightarrow>
                  if status r = 401
                  then request (demo_runtime server_handshake_ok)
                         (c1\<lparr>authenticated := False, sessionCookie := None\<rparr>) ''/api/wallet/balance'' no_options w2
                  else if \<not> ok r then Some (Inl (not_ok_error (demo_runtime server_handshake_ok) r), c1, w2)
                  else Some (return_json r, c1, w2)))"
    by blast
  have d: "map_option result_and_cookies
         (request (demo_runtime server_handshake_ok) (demo_client\<lparr>useX402 := True\<rparr>)
            ''/api/wallet/balance'' no_options world0)
        = Some (Inr (JObj [(''balance'', JNum 7)]), [None, None, Some ''session=tok''])"
    unfolding run
    by (simp add: ensure_session_def demo_defs server_handshake_ok_def session_reply_def ok_def
          authenticate_def authenticate_try_def Let_def getAddress_def return_json_def
          session_call_def session_headers_def json_headers_def caller_headers_def no_options_def
          result_and_cookies_def startsWith_def)
  have e: "map_option result_and_urls
         (request (demo_runtime server_handshake_ok) (demo_client\<lparr>useX402 := True\<rparr>)
            ''/api/wallet/balance'' no_options world0)
        = Some (Inr (JObj [(''balance'', JNum 7)]),
                [''https://zaph.work/api/auth/wallet/connect'',
                 ''https://zaph.work/api/auth/session'',
                 ''https://zaph.work/api/wallet/balance''])"
    unfolding run
    by (simp add: ensure_session_def demo_defs server_handshake_ok_def session_reply_def ok_def
          authenticate_def authenticate_try_def Let_def getAddress_def return_json_def
          session_call_def session_headers_def json_headers_def caller_headers_def no_options_def
          result_and_urls_def startsWith_def)
  from a b c d e h1 h2 show ?thesis by blast
qed

subsection \<open>createTask\<close>

lemma sends_only_refl: "sends_only c endpoint options w w"
  by (simp add: sends_only_def)

lemma sends_only_trans:
  "sends_only c endpoint options w w1 \<Longrightarrow> sends_only c endpoint options w1 w2 \<Longrightarrow>
   sends_only c endpoint options w w2"
proof -
  assume a: "sends_only c endpoint options w w1" and b: "sends_only c endpoint options w1 w2"
  from a obtain n1 where 1: "calls w1 = calls w @ n1"
    by (metis append_take_drop_id sends_only_def)
  from b obtain n2 where 2: "calls w2 = calls w1 @ n2"
    by (metis append_take_drop_id sends_only_def)
  from a b 1 2 show ?thesis
    by (simp add: sends_only_def)
qed

lemma sends_only_fetch_handshake:
  "fetch R req w = (res, w') \<Longrightarrow> handshake_url c (url req) \<Longrightarrow> sends_only c endpoint options w w'"
  by (auto simp: fetch_def sends_only_def split: prod.splits)

lemma sends_only_fetch_endpoint:
  "fetch R req w = (res, w') \<Longrightarrow> url req = apiUrl c @ endpoint \<Longrightarrow>
   req_method req = opt_method options \<Longrightarrow> req_body req = opt_body options \<Longrightarrow>
   sends_only c endpoint options w w'"
  by (auto simp: fetch_def sends_only_def split: prod.splits)

lemma sends_only_apiUrl:
  "apiUrl c' = apiUrl c \<Longrightarrow> sends_only c' endpoint options w w' = sends_only c endpoint options w w'"
  by (simp add: sends_only_def handshake_url_def)

lemma authenticate_try_sends:
  "authenticate_try R c w = (res, c', w') \<Longrightarrow>
     apiUrl c' = apiUrl c \<and> sends_only c endpoint options w w'"
  unfolding authenticate_try_def Let_def
  apply (simp split: prod.splits fetch_result.splits if_splits option.splits sum.splits)
  apply (auto simp: handshake_url_def
       intro: sends_only_fetch_handshake sends_only_trans[OF sends_only_fetch_handshake sends_only_fetch_handshake])
  done

lemma authenticate_sends:
  "authenticate R c w = (res, c', w') \<Longrightarrow>
     apiUrl c' = apiUrl c \<and> sends_only c endpoint options w w'"
  by (auto simp: authenticate_def split: prod.splits sum.splits dest: authenticate_try_sends)

lemma requestWithX402Payment_sends:
  "requestWithX402Payment R c endpoint options w = (res, c', w') \<Longrightarrow>
     apiUrl c' = apiUrl c \<and> sends_only c endpoint options w w'"
  by (auto simp: requestWithX402Payment_def makeX402Payment_def
           split: prod.splits fetch_result.splits if_splits option.splits sum.splits
           intro: sends_only_fetch_endpoint)

lemma request_sends_aux:
  assumes h: "request R c endpoint options w = Some y"
  shows "apiUrl (fst (snd y)) = apiUrl c \<and> sends_only c endpoint options w (snd (snd y))"
  apply (rule request.raw_induct[OF _ h])
  subgoal premises prems for req R c endpoint options w y
  proof (cases "startsWith endpoint ''/api/x402/'' \<and> useX402 c")
    case True
    with prems(2) show ?thesis
      by (cases y) (auto dest: requestWithX402Payment_sends)
  next
    case False
    obtain ra c1 w1 where a: "(if \<not> authenticated c then authenticate R c w else (Inr (), c, w)) = (ra, c1, w1)"
      by (metis prod_cases3)
    then have s1: "apiUrl c1 = apiUrl c" "sends_only c endpoint options w w1"
      by (auto split: if_splits dest: authenticate_sends intro: sends_only_refl)
    show ?thesis
    proof (cases ra)
      case (Inl e)
      with prems(2) False a
      have "fst (snd y) = c1 \<and> snd (snd y) = w1" by auto
      with s1 show ?thesis by simp
    next
      case (Inr u)
      obtain fr w2 where f: "fetch R \<lparr>url = apiUrl c1 @ endpoint, req_method = opt_method options,
                 req_headers = session_headers c1 options, req_body = opt_body options\<rparr> w1 = (fr, w2)"
        by (metis surj_pair)
      from sends_only_fetch_endpoint[OF f, of c endpoint options] s1
      have "sends_only c endpoint options w1 w2" by simp
      with s1 have s2: "sends_only c endpoint options w w2" by (blast intro: sends_only_trans)
      show ?thesis
      proof (cases fr)
        case (Rejected reason)
        with prems(2) False a Inr f
        have "fst (snd y) = c1 \<and> snd (snd y) = w2" by auto
        with s1 s2 show ?thesis by simp
      next
        case (Responded r)
        show ?thesis
        proof (cases "status r = 401")
          case True
          with prems(2) False a Inr f Responded
          have "req R (c1\<lparr>authenticated := False, sessionCookie := None\<rparr>) endpoint options w2 = Some y"
            by simp
          from prems(1)[OF this] s1
          have u: "apiUrl (fst (snd y)) = apiUrl c" and
               t: "sends_only (c1\<lparr>authenticated := False, sessionCookie := None\<rparr>) endpoint options w2 (snd (snd y))"
            by simp_all
          from s1 have "apiUrl (c1\<lparr>authenticated := False, sessionCookie := None\<rparr>) = apiUrl c"
            by simp
          from t sends_only_apiUrl[OF this, of endpoint options w2 "snd (snd y)"]
          have "sends_only c endpoint options w2 (snd (snd y))" by simp
          from sends_only_trans[OF s2 this] u show ?thesis by simp
        next
          case F: False
          with prems(2) False a Inr f Responded
          have "fst (snd y) = c1 \<and> snd (snd y) = w2" by (auto split: if_splits)
          with s1 s2 show ?thesis by simp
        qed
      qed
    qed
  qed
  done

lemma unwrap_world: "snd (snd (unwrap k out)) = snd (snd out)"
  by (simp add: unwrap_def split: prod.splits sum.splits)

lemma createTask_sends:
  assumes "createTask R c params w = Some (res, c', w')" and "createTask_body params = Inr b"
  shows "sends_only c (if useX402 c then ''/api/x402/tasks'' else ''/api/tasks/create'')
           (post (Some (JSON_stringify R b))) w w'"
proof -
  let ?ep = "if useX402 c then ''/api/x402/tasks'' else ''/api/tasks/create''"
  from assms obtain y where r: "request R c ?ep (post (Some (JSON_stringify R b))) w = Some y"
    and u: "unwrap ''task'' y = (res, c', w')"
    by (auto simp: createTask_def Let_def split: if_splits)
  from unwrap_world[of "''task''" y] u have "snd (snd y) = w'" by simp
  with request_sends_aux[OF r] show ?thesis by simp
qed

lemma createTask_body_mapping:
  "deadline_iso params = Inr stamp \<Longrightarrow>
   createTask_body params =
     Inr (JObj ([(''title'', JStr (title params)),
                 (''description'', JStr (description params)),
                 (''category'', JStr (category params)),
                 (''payment_amount'', number_json (paymentAmount params)),
                 (''currency'', JStr (case currency params of None \<Rightarrow> ''USDC''
                                       | Some s \<Rightarrow> if s = [] then ''USDC'' else s))]
                @ (case stamp of None \<Rightarrow> [] | Some d \<Rightarrow> [(''deadline'', JStr d)])
                @ [(''workers_needed'',
                     number_json (case workersNeeded params of None \<Rightarrow> Num 1
                                  | Some n \<Rightarrow> if number_truthy n then n else Num 1))]))"
  by (auto simp: createTask_body_def currency_or_default_def workers_or_default_def
           split: option.splits)

lemma createTask_body_demo:
  "createTask_body demo_params =
     Inr (JObj [(''title'', JStr ''t''), (''description'', JStr ''d''), (''category'', JStr ''data''),
                (''payment_amount'', JNum 5), (''currency'', JStr ''USDC''),
                (''workers_needed'', JNum 1)])"
  by (simp add: createTask_body_def demo_params_def deadline_iso_def currency_or_default_def
        workers_or_default_def)

text \<open>
  C8.  For the parameters of the example the object serialised by \<^verbatim>\<open>createTask\<close> has
  payment_amount 5, currency USDC and workers_needed 1.  In general each parameter goes to
  its snake_case member, with the two defaults (a missing or empty currency is USDC, a
  missing, zero or NaN worker count is 1) and the deadline as its ISO string when there is
  one.  Every call that \<^verbatim>\<open>createTask\<close> issues, the handshake apart, goes to its endpoint
  with that serialised object as body.
\<close>

theorem createTask_wire_body:
  "createTask_body demo_params =
     Inr (JObj [(''title'', JStr ''t''), (''description'', JStr ''d''), (''category'', JStr ''data''),
                (''payment_amount'', JNum 5), (''currency'', JStr ''USDC''),
                (''workers_needed'', JNum 1)])
   \<and> (deadline_iso params = Inr stamp \<longrightarrow>
        createTask_body params =
          Inr (JObj ([(''title'', JStr (title params)),
                      (''description'', JStr (description params)),
                      (''category'', JStr (category params)),
                      (''payment_amount'', number_json (paymentAmount params)),
                      (''currency'', JStr (case currency params of None \<Rightarrow> ''USDC''
                                            | Some s \<Rightarrow> if s = [] then ''USDC'' else s))]
                     @ (case stamp of None \<Rightarrow> [] | Some d \<Rightarrow> [(''deadline'', JStr d)])
                     @ [(''workers_needed'',
                          number_json (case workersNeeded params of None \<Rightarrow> Num 1
                                       | Some n \<Rightarrow> if number_truthy n then n else Num 1))])))
   \<and> (createTask R c params w = Some (res, c', w') \<and> createTask_body params = Inr b \<longrightarrow>
        sends_only c (if useX402 c then ''/api/x402/tasks'' else ''/api/tasks/create'')
          (post (Some (JSON_stringify R b))) w w')"
  using createTask_body_demo createTask_body_mapping[of params stamp]
    createTask_sends[of R c params w res c' w' b]
  by blast

theorem createTask_wire_body_witness:
  "createTask_body (demo_params\<lparr>currency := Some ''SOL'',
                                 deadline := Some (Date ''2026-01-01T00:00:00.000Z''),
                                 workersNeeded := Some (Num 3)\<rparr>) =
     Inr (JObj [(''title'', JStr ''t''), (''description'', JStr ''d''), (''category'', JStr ''data''),
                (''payment_amount'', JNum 5), (''currency'', JStr ''SOL''),
                (''deadline'', JStr ''2026-01-01T00:00:00.000Z''),
                (''workers_needed'', JNum 3)])
   \<and> createTask (demo_runtime server_task_created) signed_in_client demo_params world0
        = Some (Inr (Some (JObj [(''id'', JStr ''1'')])), signed_in_client,
                \<lparr> calls = [\<lparr> url = ''https://zaph.work/api/tasks/create'',
                               req_method = Some ''POST'',
                               req_headers = [''Content-Type'' \<mapsto> ''application/json'',
                                              ''Cookie'' \<mapsto> ''session=abc''],
                               req_body = Some ''json'' \<rparr>],
                  clock = 1005 \<rparr>)
   \<and> sends_only signed_in_client ''/api/tasks/create''
         (post (Some (JSON_stringify (demo_runtime server_task_created)
            (JObj [(''title'', JStr ''t''), (''description'', JStr ''d''), (''category'', JStr ''data''),
                (''payment_amount'', JNum 5), (''currency'', JStr ''USDC''),
                (''workers_needed'', JNum 1)]))))
         world0
         \<lparr> calls = [\<lparr> url = ''https://zaph.work/api/tasks/create'',
                               req_method = Some ''POST'',
                               req_headers = [''Content-Type'' \<mapsto> ''application/json'',
                                              ''Cookie'' \<mapsto> ''session=abc''],
                               req_body = Some ''json'' \<rparr>],
                  clock = 1005 \<rparr>"
proof -
  let ?p = "demo_params\<lparr>currency := Some ''SOL'',
                         deadline := Some (Date ''2026-01-01T00:00:00.000Z''),
                         workersNeeded := Some (Num 3)\<rparr>"
  let ?R = "demo_runtime server_task_created"
  let ?w1 = "\<lparr> calls = [\<lparr> url = ''https://zaph.work/api/tasks/create'',
                               req_method = Some ''POST'',
                               req_headers = [''Content-Type'' \<mapsto> ''application/json'',
                                              ''Cookie'' \<mapsto> ''session=abc''],
                               req_body = Some ''json'' \<rparr>],
                  clock = 1005 \<rparr>"
  let ?b = "JObj [(''title'', JStr ''t''), (''description'', JStr ''d''), (''category'', JStr ''data''),
                (''payment_amount'', JNum 5), (''currency'', JStr ''USDC''),
                (''workers_needed'', JNum 1)]"
  have d: "deadline_iso ?p = Inr (Some ''2026-01-01T00:00:00.000Z'')"
    by (simp add: deadline_iso_def demo_params_def)
  from createTask_wire_body[where params = ?p and stamp = "Some ''2026-01-01T00:00:00.000Z''"] d
  have a: "createTask_body ?p =
     Inr (JObj [(''title'', JStr ''t''), (''description'', JStr ''d''), (''category'', JStr ''data''),
                (''payment_amount'', JNum 5), (''currency'', JStr ''SOL''),
                (''deadline'', JStr ''2026-01-01T00:00:00.000Z''),
                (''workers_needed'', JNum 3)])"
    by (simp add: demo_params_def)
  have b: "createTask_body demo_params = Inr ?b"
    by (rule createTask_body_demo)
  have r: "createTask ?R signed_in_client demo_params world0
        = Some (Inr (Some (JObj [(''id'', JStr ''1'')])), signed_in_client, ?w1)"
    unfolding createTask_def Let_def b
    by (subst request.simps)
       (simp add: demo_defs server_task_created_def ok_def startsWith_def return_json_def unwrap_def
          post_def session_headers_def json_headers_def caller_headers_def)
  from createTask_wire_body[where R = ?R and c = signed_in_client and params = demo_params
         and w = world0 and res = "Inr (Some (JObj [(''id'', JStr ''1'')]))" and c' = signed_in_client
         and w' = ?w1 and b = ?b] r b
  have s: "sends_only signed_in_client ''/api/tasks/create'' (post (Some (JSON_stringify ?R ?b))) world0 ?w1"
    by (simp add: signed_in_client_def demo_client_def)
  from a r s show ?thesis by blast
qed

lemma fetch_calls: "fetch R req w = (res, w') \<Longrightarrow> calls w' = calls w @ [req]"
  by (auto simp: fetch_def split: prod.splits)

lemma sends_only_prefix:
  "sends_only c endpoint options w w' \<Longrightarrow> \<exists>new. calls w' = calls w @ new"
  by (metis append_take_drop_id sends_only_def)

lemma request_first_call:
  assumes np: "\<not> (startsWith endpoint ''/api/x402/'' \<and> useX402 c)"
    and au: "authenticated c"
    and r: "request R c endpoint options w = Some (res, c', w')"
  shows "\<exists>later. calls w' = calls w @ session_call c endpoint options # later"
proof -
  obtain fr w2 where f: "fetch R (session_call c endpoint options) w = (fr, w2)"
    by (metis surj_pair)
  from fetch_calls[OF f] have c2: "calls w2 = calls w @ [session_call c endpoint options]" .
  have e: "ensure_session R c w = (Inr (), c, w)" using au by (simp add: ensure_session_def)
  show ?thesis
  proof (cases fr)
    case (Rejected reason)
    with r request_session_unfold[OF np, of R options w] e f have "w' = w2" by simp
    with c2 show ?thesis by simp
  next
    case (Responded resp)
    show ?thesis
    proof (cases "status resp = 401")
      case True
      with r request_session_unfold[OF np, of R options w] e f Responded
      have "request R (c\<lparr>authenticated := False, sessionCookie := None\<rparr>) endpoint options w2
              = Some (res, c', w')" by simp
      from request_sends_aux[OF this] obtain new where "calls w' = calls w2 @ new"
        using sends_only_prefix by fastforce
      with c2 show ?thesis by simp
    next
      case False
      with r request_session_unfold[OF np, of R options w] e f Responded have "w' = w2"
        by (auto split: if_splits)
      with c2 show ?thesis by simp
    qed
  qed
qed

lemma createTask_invalid_date:
  "deadline_iso params = Inl e \<Longrightarrow>
   createTask R c params w = Some (Inl e, c, w) \<and> createTaskX402 R c params w = (Inl e, c, w)"
  by (simp add: createTask_def createTaskX402_def createTask_body_def createTaskX402_body_def Let_def)

lemma createTask_bodies:
  "deadline_iso params = Inr stamp \<Longrightarrow>
   createTask_body params =
     Inr (JObj (common_head params
                @ [(''payment_amount'', number_json (paymentAmount params))]
                @ common_tail params stamp))
   \<and> createTaskX402_body params =
     Inr (JObj (common_head params
                @ [(''payment_per_task'', number_json (paymentAmount params))]
                @ common_tail params stamp))"
  by (auto simp: createTask_body_def createTaskX402_body_def common_head_def common_tail_def
           split: sum.splits option.splits)

lemma post_call:
  "unauthenticated_call c endpoint (post b) =
     \<lparr> url = apiUrl c @ endpoint, req_method = Some ''POST'', req_headers = json_headers,
       req_body = b \<rparr>"
  by (simp add: unauthenticated_call_def post_def caller_headers_def)

lemma createTaskX402_call:
  assumes d: "deadline_iso params = Inr stamp"
    and out: "createTaskX402 R c params w = (res, c', w')"
  shows "c' = c \<and>
         calls w' = calls w @
           [\<lparr> url = apiUrl c @ ''/api/x402/tasks'', req_method = Some ''POST'',
              req_headers = json_headers,
              req_body = Some (JSON_stringify R (JObj (common_head params
                @ [(''payment_per_task'', number_json (paymentAmount params))]
                @ common_tail params stamp))) \<rparr>]"
proof -
  let ?b = "JObj (common_head params
                @ [(''payment_per_task'', number_json (paymentAmount params))]
                @ common_tail params stamp)"
  from createTask_bodies[OF d] have b: "createTaskX402_body params = Inr ?b" by simp
  obtain r1 c1 w1 where p: "requestWithX402Payment R c ''/api/x402/tasks''
                               (post (Some (JSON_stringify R ?b))) w = (r1, c1, w1)"
    by (metis prod_cases3)
  from out b p unwrap_world[of "''task''" "(r1, c1, w1)"]
  have "w' = w1" "c' = c1"
    by (auto simp: createTaskX402_def unwrap_def split: sum.splits)
  with requestWithX402Payment_frame[OF p] show ?thesis by (simp add: post_call)
qed

lemma createTask_delegated_call:
  assumes d: "deadline_iso params = Inr stamp" and x: "useX402 c"
  shows "\<exists>res w'. createTask R c params w = Some (res, c, w') \<and>
         calls w' = calls w @
           [\<lparr> url = apiUrl c @ ''/api/x402/tasks'', req_method = Some ''POST'',
              req_headers = json_headers,
              req_body = Some (JSON_stringify R (JObj (common_head params
                @ [(''payment_amount'', number_json (paymentAmount params))]
                @ common_tail params stamp))) \<rparr>]"
proof -
  let ?b = "JObj (common_head params
                @ [(''payment_amount'', number_json (paymentAmount params))]
                @ common_tail params stamp)"
  from createTask_bodies[OF d] have b: "createTask_body params = Inr ?b" by simp
  obtain r1 c1 w1 where p: "requestWithX402Payment R c ''/api/x402/tasks''
                               (post (Some (JSON_stringify R ?b))) w = (r1, c1, w1)"
    by (metis prod_cases3)
  have "request R c ''/api/x402/tasks'' (post (Some (JSON_stringify R ?b))) w = Some (r1, c1, w1)"
    using request_delegates[of "''/api/x402/tasks''" c R "post (Some (JSON_stringify R ?b))" w] x p
    by (simp add: startsWith_def)
  then have "createTask R c params w = Some (unwrap ''task'' (r1, c1, w1))"
    using b x by (simp add: createTask_def)
  moreover have "unwrap ''task'' (r1, c1, w1) = (fst (unwrap ''task'' (r1, c1, w1)), c1, w1)"
    by (simp add: unwrap_def split: sum.splits)
  ultimately have "createTask R c params w = Some (fst (unwrap ''task'' (r1, c1, w1)), c1, w1)"
    by simp
  with requestWithX402Payment_frame[OF p] show ?thesis by (simp add: post_call)
qed

lemma session_headers_post:
  "session_headers c (post b) = session_headers c no_options"
  by (simp add: session_headers_def caller_headers_def post_def no_options_def
        split: option.splits)

lemma createTask_session_call:
  assumes d: "deadline_iso params = Inr stamp" and x: "\<not> useX402 c" and au: "authenticated c"
    and out: "createTask R c params w = Some (res, c', w')"
  shows "\<exists>later. calls w' = calls w @
           \<lparr> url = apiUrl c @ ''/api/tasks/create'', req_method = Some ''POST'',
              req_headers = session_headers c no_options,
              req_body = Some (JSON_stringify R (JObj (common_head params
                @ [(''payment_amount'', number_json (paymentAmount params))]
                @ common_tail params stamp))) \<rparr> # later"
proof -
  let ?b = "JObj (common_head params
                @ [(''payment_amount'', number_json (paymentAmount params))]
                @ common_tail params stamp)"
  from createTask_bodies[OF d] have b: "createTask_body params = Inr ?b" by simp
  from out b x obtain y where r: "request R c ''/api/tasks/create'' (post (Some (JSON_stringify R ?b))) w = Some y"
    and u: "unwrap ''task'' y = (res, c', w')"
    by (auto simp: createTask_def)
  from unwrap_world[of "''task''" y] u have w': "snd (snd y) = w'" by simp
  obtain r1 c1 where y: "y = (r1, c1, w')" using w' by (cases y) auto
  have np: "\<not> (startsWith ''/api/tasks/create'' ''/api/x402/'' \<and> useX402 c)" using x by simp
  have "session_call c ''/api/tasks/create'' (post (Some (JSON_stringify R ?b)))
          = \<lparr> url = apiUrl c @ ''/api/tasks/create'', req_method = Some ''POST'',
              req_headers = session_headers c no_options,
              req_body = Some (JSON_stringify R ?b) \<rparr>"
    by (simp add: session_call_def session_headers_post) (simp add: post_def)
  with request_first_call[OF np au r[unfolded y]]
  show ?thesis by simp
qed


text \<open>
  C6.  The two bodies are built from the same members in the same order, except that
  the payment amount is named payment_amount by \<^verbatim>\<open>createTask\<close> and payment_per_task by
  \<^verbatim>\<open>createTaskX402\<close>; neither name occurs among the shared members.  When the deadline
  is an invalid Date, both operations throw the same RangeError and issue no call.
  Otherwise \<^verbatim>\<open>createTaskX402\<close> issues exactly one call, to \<^verbatim>\<open>/api/x402/tasks\<close>, whose body
  is the serialised object with payment_per_task; \<^verbatim>\<open>createTask\<close> with useX402 set issues
  exactly one call to the same address, with payment_amount; and \<^verbatim>\<open>createTask\<close> on an
  authenticated session without useX402 issues first a call to \<^verbatim>\<open>/api/tasks/create\<close>
  whose body is the serialised object with payment_amount.
\<close>

theorem createTask_bodies_differ_in_one_name:
  "(case deadline_iso params of
      Inl e \<Rightarrow> createTask_body params = Inl e \<and> createTaskX402_body params = Inl e
    | Inr stamp \<Rightarrow>
        createTask_body params =
          Inr (JObj (common_head params
                     @ [(''payment_amount'', number_json (paymentAmount params))]
                     @ common_tail params stamp))
        \<and> createTaskX402_body params =
          Inr (JObj (common_head params
                     @ [(''payment_per_task'', number_json (paymentAmount params))]
                     @ common_tail params stamp)))
   \<and> ''payment_amount'' \<notin> fst ` set (common_head params @ common_tail params stamp)
   \<and> ''payment_per_task'' \<notin> fst ` set (common_head params @ common_tail params stamp)
   \<and> (deadline_iso params = Inl e \<longrightarrow>
        createTask R c params w = Some (Inl e, c, w)
        \<and> createTaskX402 R c params w = (Inl e, c, w))
   \<and> (deadline_iso params = Inr stamp \<and> createTaskX402 R c params w = (res2, c2, w2) \<longrightarrow>
        c2 = c \<and>
        calls w2 = calls w @
          [\<lparr> url = apiUrl c @ ''/api/x402/tasks'', req_method = Some ''POST'',
             req_headers = json_headers,
             req_body = Some (JSON_stringify R (JObj (common_head params
               @ [(''payment_per_task'', number_json (paymentAmount params))]
               @ common_tail params stamp))) \<rparr>])
   \<and> (deadline_iso params = Inr stamp \<and> useX402 c \<longrightarrow>
        (\<exists>res w'. createTask R c params w = Some (res, c, w') \<and>
           calls w' = calls w @
             [\<lparr> url = apiUrl c @ ''/api/x402/tasks'', req_method = Some ''POST'',
                req_headers = json_headers,
                req_body = Some (JSON_stringify R (JObj (common_head params
                  @ [(''payment_amount'', number_json (paymentAmount params))]
                  @ common_tail params stamp))) \<rparr>]))
   \<and> (deadline_iso params = Inr stamp \<and> \<not> useX402 c \<and> authenticated c
        \<and> createTask R c params w = Some (res1, c1, w1) \<longrightarrow>
        (\<exists>later.
           calls w1 = calls w @
             \<lparr> url = apiUrl c @ ''/api/tasks/create'', req_method = Some ''POST'',
               req_headers = session_headers c no_options,
               req_body = Some (JSON_stringify R (JObj (common_head params
                 @ [(''payment_amount'', number_json (paymentAmount params))]
                 @ common_tail params stamp))) \<rparr> # later))"
proof -
  have 1: "(case deadline_iso params of
      Inl e \<Rightarrow> createTask_body params = Inl e \<and> createTaskX402_body params = Inl e
    | Inr stamp \<Rightarrow>
        createTask_body params =
          Inr (JObj (common_head params
                     @ [(''payment_amount'', number_json (paymentAmount params))]
                     @ common_tail params stamp))
        \<and> createTaskX402_body params =
          Inr (JObj (common_head params
                     @ [(''payment_per_task'', number_json (paymentAmount params))]
                     @ common_tail params stamp)))"
    by (auto simp: createTask_body_def createTaskX402_body_def common_head_def common_tail_def
             split: sum.splits option.splits)
  have 2: "''payment_amount'' \<notin> fst ` set (common_head params @ common_tail params stamp)"
    and 3: "''payment_per_task'' \<notin> fst ` set (common_head params @ common_tail params stamp)"
    by (auto simp: common_head_def common_tail_def split: option.splits)
  note 4 = createTask_invalid_date[of params e R c w]
  note 5 = createTaskX402_call[of params stamp R c w res2 c2 w2]
  note 6 = createTask_delegated_call[of params stamp c R w]
  note 7 = createTask_session_call[of params stamp c R w res1 c1 w1]
  from 1 2 3 4 5 6 7 show ?thesis by blast
qed


theorem createTask_bodies_differ_in_one_name_witness:
  "createTask_body demo_params =
     Inr (JObj [(''title'', JStr ''t''), (''description'', JStr ''d''), (''category'', JStr ''data''),
                (''payment_amount'', JNum 5), (''currency'', JStr ''USDC''),
                (''workers_needed'', JNum 1)])
   \<and> createTaskX402_body demo_params =
     Inr (JObj [(''title'', JStr ''t''), (''description'', JStr ''d''), (''category'', JStr ''data''),
                (''payment_per_task'', JNum 5), (''currency'', JStr ''USDC''),
                (''workers_needed'', JNum 1)])
   \<and> createTask (naming_runtime server_402) signed_in_client
         (demo_params\<lparr>deadline := Some InvalidDate\<rparr>) world0
       = Some (Inl (JsError ''RangeError'' ''Invalid time value''), signed_in_client, world0)
   \<and> createTaskX402 (naming_runtime server_402) signed_in_client
         (demo_params\<lparr>deadline := Some InvalidDate\<rparr>) world0
       = (Inl (JsError ''RangeError'' ''Invalid time value''), signed_in_client, world0)
   \<and> map req_body (calls (snd (snd
         (createTaskX402 (naming_runtime server_402) signed_in_client demo_params world0))))
       = [Some ''title description category payment_per_task currency workers_needed '']
   \<and> (\<exists>res w'. createTask (naming_runtime server_402) (signed_in_client\<lparr>useX402 := True\<rparr>)
                    demo_params world0
                  = Some (res, signed_in_client\<lparr>useX402 := True\<rparr>, w')
         \<and> map req_body (calls w')
             = [Some ''title description category payment_amount currency workers_needed ''])
   \<and> createTask (naming_runtime server_task_created) signed_in_client demo_params world0
       = Some (Inr (Some (JObj [(''id'', JStr ''1'')])), signed_in_client,
               \<lparr> calls = [\<lparr> url = ''https://zaph.work/api/tasks/create'',
                              req_method = Some ''POST'',
                              req_headers = [''Content-Type'' \<mapsto> ''application/json'',
                                             ''Cookie'' \<mapsto> ''session=abc''],
                              req_body = Some ''title description category payment_amount currency workers_needed '' \<rparr>],
                 clock = 1005 \<rparr>)"
proof -
  let ?R = "naming_runtime server_402"
  let ?bad = "demo_params\<lparr>deadline := Some InvalidDate\<rparr>"
  let ?cx = "signed_in_client\<lparr>useX402 := True\<rparr>"
  let ?w3 = "\<lparr> calls = [\<lparr> url = ''https://zaph.work/api/tasks/create'',
                              req_method = Some ''POST'',
                              req_headers = [''Content-Type'' \<mapsto> ''application/json'',
                                             ''Cookie'' \<mapsto> ''session=abc''],
                              req_body = Some ''title description category payment_amount currency workers_needed '' \<rparr>],
                 clock = 1005 \<rparr>"
  have d: "deadline_iso demo_params = Inr None"
    by (simp add: deadline_iso_def demo_params_def)
  have dbad: "deadline_iso ?bad = Inl (JsError ''RangeError'' ''Invalid time value'')"
    by (simp add: deadline_iso_def demo_params_def)
  have names: "JSON_stringify (naming_runtime srv) j = member_names j" for srv j
    by (simp add: naming_runtime_def)
  have n1: "member_names (JObj (common_head demo_params
               @ (''payment_per_task'', number_json (paymentAmount demo_params))
               # common_tail demo_params None))
            = ''title description category payment_per_task currency workers_needed ''"
    by (simp add: member_names_def common_head_def common_tail_def)
  have n2: "member_names (JObj (common_head demo_params
               @ (''payment_amount'', number_json (paymentAmount demo_params))
               # common_tail demo_params None))
            = ''title description category payment_amount currency workers_needed ''"
    by (simp add: member_names_def common_head_def common_tail_def)
  from createTask_bodies_differ_in_one_name[where params = demo_params, THEN conjunct1] d
  have a: "createTask_body demo_params =
     Inr (JObj [(''title'', JStr ''t''), (''description'', JStr ''d''), (''category'', JStr ''data''),
                (''payment_amount'', JNum 5), (''currency'', JStr ''USDC''),
                (''workers_needed'', JNum 1)])
   \<and> createTaskX402_body demo_params =
     Inr (JObj [(''title'', JStr ''t''), (''description'', JStr ''d''), (''category'', JStr ''data''),
                (''payment_per_task'', JNum 5), (''currency'', JStr ''USDC''),
                (''workers_needed'', JNum 1)])"
    by (simp add: demo_params_def common_head_def common_tail_def
          currency_or_default_def workers_or_default_def)
  from createTask_bodies_differ_in_one_name[where params = ?bad and R = ?R and c = signed_in_client
         and w = world0 and e = "JsError ''RangeError'' ''Invalid time value''",
         THEN conjunct2, THEN conjunct2, THEN conjunct2, THEN conjunct1] dbad
  have b: "createTask ?R signed_in_client ?bad world0
             = Some (Inl (JsError ''RangeError'' ''Invalid time value''), signed_in_client, world0)
         \<and> createTaskX402 ?R signed_in_client ?bad world0
             = (Inl (JsError ''RangeError'' ''Invalid time value''), signed_in_client, world0)"
    by blast
  obtain r2 c2 w2 where x: "createTaskX402 ?R signed_in_client demo_params world0 = (r2, c2, w2)"
    by (metis prod_cases3)
  from createTask_bodies_differ_in_one_name[where params = demo_params and R = ?R
         and c = signed_in_client and w = world0 and stamp = None and ?res2.0 = r2 and ?c2.0 = c2
         and ?w2.0 = w2,
         THEN conjunct2, THEN conjunct2, THEN conjunct2, THEN conjunct2, THEN conjunct1] d x
  have "map req_body (calls w2)
          = [Some ''title description category payment_per_task currency workers_needed '']"
    by (simp add: names n1 world0_def)
  with x have c: "map req_body (calls (snd (snd
         (createTaskX402 ?R signed_in_client demo_params world0))))
       = [Some ''title description category payment_per_task currency workers_needed '']"
    by simp
  from createTask_bodies_differ_in_one_name[where params = demo_params and R = ?R
         and c = ?cx and w = world0 and stamp = None,
         THEN conjunct2, THEN conjunct2, THEN conjunct2, THEN conjunct2, THEN conjunct2,
         THEN conjunct1] d
  have e: "\<exists>res w'. createTask ?R ?cx demo_params world0 = Some (res, ?cx, w')
         \<and> map req_body (calls w')
             = [Some ''title description category payment_amount currency workers_needed '']"
    by (auto simp add: names n2 world0_def)
  have ab: "createTask_body demo_params = Inr (JObj (common_head demo_params
               @ [(''payment_amount'', number_json (paymentAmount demo_params))]
               @ common_tail demo_params None))"
    using createTask_bodies[OF d] by simp
  have f: "createTask (naming_runtime server_task_created) signed_in_client demo_params world0
       = Some (Inr (Some (JObj [(''id'', JStr ''1'')])), signed_in_client, ?w3)"
    unfolding createTask_def Let_def ab
    by (subst request.simps)
       (simp add: names n2 naming_runtime_def demo_defs server_task_created_def ok_def
          startsWith_def return_json_def unwrap_def post_def session_headers_def json_headers_def
          caller_headers_def)
  from a b c e f show ?thesis by blast
qed

subsection \<open>waitForTaskStatus\<close>

lemma fetch_clock: "fetch R req w = (res, w') \<Longrightarrow> clock w \<le> clock w'"
  by (auto simp: fetch_def split: prod.splits)

lemma authenticate_try_clock: "authenticate_try R c w = (res, c', w') \<Longrightarrow> clock w \<le> clock w'"
  unfolding authenticate_try_def Let_def
  by (auto split: prod.splits fetch_result.splits if_splits option.splits sum.splits
           dest!: fetch_clock)

lemma authenticate_clock: "authenticate R c w = (res, c', w') \<Longrightarrow> clock w \<le> clock w'"
  by (auto simp: authenticate_def split: prod.splits sum.splits dest: authenticate_try_clock)

lemma requestWithX402Payment_clock:
  "requestWithX402Payment R c endpoint options w = (res, c', w') \<Longrightarrow> clock w \<le> clock w'"
  by (auto simp: requestWithX402Payment_def makeX402Payment_def
           split: prod.splits fetch_result.splits if_splits option.splits sum.splits
           dest!: fetch_clock)

lemma request_clock_aux:
  assumes h: "request R c endpoint options w = Some y"
  shows "clock w \<le> clock (snd (snd y))"
  apply (rule request.raw_induct[OF _ h])
  subgoal premises prems for req R c endpoint options w y
  proof (cases "startsWith endpoint ''/api/x402/'' \<and> useX402 c")
    case True
    with prems(2) show ?thesis
      by (cases y) (auto dest: requestWithX402Payment_clock)
  next
    case False
    obtain ra c1 w1 where a: "(if \<not> authenticated c then authenticate R c w else (Inr (), c, w)) = (ra, c1, w1)"
      by (metis prod_cases3)
    then have c1: "clock w \<le> clock w1"
      by (auto split: if_splits dest: authenticate_clock)
    show ?thesis
    proof (cases ra)
      case (Inl e)
      with prems(2) False a c1 show ?thesis by auto
    next
      case (Inr u)
      obtain fr w2 where f: "fetch R \<lparr>url = apiUrl c1 @ endpoint, req_method = opt_method options,
                 req_headers = session_headers c1 options, req_body = opt_body options\<rparr> w1 = (fr, w2)"
        by (metis surj_pair)
      then have c2: "clock w1 \<le> clock w2" by (rule fetch_clock)
      show ?thesis
      proof (cases fr)
        case (Rejected reason)
        with prems(2) False a Inr f c1 c2 show ?thesis by auto
      next
        case (Responded r)
        show ?thesis
        proof (cases "status r = 401")
          case True
          with prems(2) False a Inr f Responded
          have "req R (c1\<lparr>authenticated := False, sessionCookie := None\<rparr>) endpoint options w2 = Some y"
            by simp
          from prems(1)[OF this] c1 c2 show ?thesis by simp
        next
          case F: False
          with prems(2) False a Inr f Responded c1 c2 show ?thesis by (auto split: if_splits)
        qed
      qed
    qed
  qed
  done

lemma getTask_clock:
  assumes "getTask R c taskId w = Some (res, c', w')"
  shows "clock w \<le> clock w'"
proof -
  from assms obtain y where r: "request R c (''/api/tasks/'' @ taskId) no_options w = Some y"
    and u: "unwrap ''task'' y = (res, c', w')"
    by (auto simp: getTask_def)
  from unwrap_world[of "''task''" y] u have "snd (snd y) = w'" by simp
  with request_clock_aux[OF r] show ?thesis by simp
qed

lemma loop_match:
  "int (clock w) - int startTime < timeoutMs \<Longrightarrow>
   getTask R c taskId w = Some (Inr task, c1, w1) \<Longrightarrow>
   get_prop_opt task ''status'' = Inr (Some (JStr targetStatus)) \<Longrightarrow>
   waitForTaskStatus_loop R c taskId targetStatus timeoutMs pollIntervalMs startTime w
     = Some (Inr task, c1, w1)"
  by (subst waitForTaskStatus_loop.simps) simp

lemma loop_deadline:
  "\<not> int (clock w) - int startTime < timeoutMs \<Longrightarrow>
   waitForTaskStatus_loop R c taskId targetStatus timeoutMs pollIntervalMs startTime w
     = Some (Inl (timeout_error taskId targetStatus), c, w)"
  by (subst waitForTaskStatus_loop.simps) simp

lemma loop_again:
  "int (clock w) - int startTime < timeoutMs \<Longrightarrow>
   getTask R c taskId w = Some (Inr task, c1, w1) \<Longrightarrow>
   get_prop_opt task ''status'' = Inr st \<Longrightarrow> st \<noteq> Some (JStr targetStatus) \<Longrightarrow>
   waitForTaskStatus_loop R c taskId targetStatus timeoutMs pollIntervalMs startTime w
     = waitForTaskStatus_loop R c1 taskId targetStatus timeoutMs pollIntervalMs startTime
         (sleep pollIntervalMs w1)"
  by (subst waitForTaskStatus_loop.simps) simp

lemma loop_times_out:
  assumes nm: "never_matches R taskId targetStatus" and pos: "0 < pollIntervalMs"
  shows "\<exists>c' w'. waitForTaskStatus_loop R c taskId targetStatus timeoutMs pollIntervalMs startTime w
                   = Some (Inl (timeout_error taskId targetStatus), c', w')
                 \<and> timeoutMs \<le> int (clock w') - int startTime"
proof (induction "nat (timeoutMs - (int (clock w) - int startTime))" arbitrary: c w rule: less_induct)
  case less
  show ?case
  proof (cases "int (clock w) - int startTime < timeoutMs")
    case False
    then show ?thesis using loop_deadline[OF False] by auto
  next
    case True
    from nm have "case getTask R c taskId w of
              None \<Rightarrow> False
            | Some (Inl e, c1, w1) \<Rightarrow> False
            | Some (Inr task, c1, w1) \<Rightarrow>
                (case get_prop_opt task ''status'' of
                   Inl e \<Rightarrow> False
                 | Inr st \<Rightarrow> st \<noteq> Some (JStr targetStatus))"
      (is "?polled") unfolding never_matches_def by blast
    then obtain out where g0: "getTask R c taskId w = Some out"
      by (cases "getTask R c taskId w") auto
    obtain res c1 w1 where out: "out = (res, c1, w1)" by (metis prod_cases3)
    from \<open>?polled\<close> g0 out obtain task where res: "res = Inr task"
      by (cases res) auto
    from \<open>?polled\<close> g0 out res obtain st where s: "get_prop_opt task ''status'' = Inr st"
      and ne: "st \<noteq> Some (JStr targetStatus)"
      by (cases "get_prop_opt task ''status''") auto
    from g0 out res have g: "getTask R c taskId w = Some (Inr task, c1, w1)" by simp
    have "clock w \<le> clock w1" using g by (rule getTask_clock)
    with pos True
    have "nat (timeoutMs - (int (clock (sleep pollIntervalMs w1)) - int startTime))
            < nat (timeoutMs - (int (clock w) - int startTime))"
      by (simp add: sleep_def)
    from less[OF this] loop_again[OF True g s ne] show ?thesis by simp
  qed
qed

lemma server_open_task_getTask:
  "\<exists>c1 w1. getTask (demo_runtime server_open_task) c ''42'' w
       = Some (Inr (Some (JObj [(''status'', JStr ''open'')])), c1, w1)"
  unfolding getTask_def
  by (subst request.simps)
     (simp add: demo_runtime_def server_open_task_def fetch_def reply_def ok_def startsWith_def
        authenticate_def authenticate_try_def Let_def return_json_def unwrap_def no_options_def)

lemma server_open_task_never_matches:
  "never_matches (demo_runtime server_open_task) ''42'' ''completed''"
  unfolding never_matches_def
proof (intro allI)
  fix c w
  from server_open_task_getTask[of c w] obtain c1 w1 where
    "getTask (demo_runtime server_open_task) c ''42'' w
       = Some (Inr (Some (JObj [(''status'', JStr ''open'')])), c1, w1)" by blast
  then show "case getTask (demo_runtime server_open_task) c ''42'' w of
              None \<Rightarrow> False
            | Some (Inl e, c1, w1) \<Rightarrow> False
            | Some (Inr task, c1, w1) \<Rightarrow>
                (case get_prop_opt task ''status'' of
                   Inl e \<Rightarrow> False
                 | Inr st \<Rightarrow> st \<noteq> Some (JStr ''completed''))"
    by simp
qed

lemma loop_poll_throws:
  "int (clock w) - int startTime < timeoutMs \<Longrightarrow>
   getTask R c taskId w = Some (Inl e, c1, w1) \<Longrightarrow>
   waitForTaskStatus_loop R c taskId targetStatus timeoutMs pollIntervalMs startTime w
     = Some (Inl e, c1, w1)"
  by (subst waitForTaskStatus_loop.simps) simp

lemma loop_returns_last_poll_aux:
  assumes h: "waitForTaskStatus_loop R c taskId targetStatus timeoutMs pollIntervalMs startTime w = Some y"
  shows "\<forall>task c' w'. y = (Inr task, c', w') \<longrightarrow>
           get_prop_opt task ''status'' = Inr (Some (JStr targetStatus))
           \<and> (\<exists>c0 w0. getTask R c0 taskId w0 = Some (Inr task, c', w')
                        \<and> int (clock w0) - int startTime < timeoutMs)"
  apply (rule waitForTaskStatus_loop.raw_induct[OF _ h])
  subgoal premises prems for loop R c taskId targetStatus timeoutMs pollIntervalMs startTime w y
  proof (cases "int (clock w) - int startTime < timeoutMs")
    case False
    with prems(2) show ?thesis by auto
  next
    case True
    show ?thesis
    proof (cases "getTask R c taskId w")
      case None
      with prems(2) True show ?thesis by simp
    next
      case (Some out)
      obtain res c1 w1 where out: "out = (res, c1, w1)" by (metis prod_cases3)
      show ?thesis
      proof (cases res)
        case (Inl e)
        with prems(2) True Some out show ?thesis by auto
      next
        case (Inr task)
        show ?thesis
        proof (cases "get_prop_opt task ''status''")
          case i: (Inl e)
          with prems(2) True Some out Inr show ?thesis by auto
        next
          case st: (Inr st)
          show ?thesis
          proof (cases "st = Some (JStr targetStatus)")
            case m: True
            with prems(2) True Some out Inr st have "y = (Inr task, c1, w1)" by simp
            with True Some out Inr st m show ?thesis by auto
          next
            case n: False
            with prems(2) True Some out Inr st
            have "loop R c1 taskId targetStatus timeoutMs pollIntervalMs startTime
                    (sleep pollIntervalMs w1) = Some y" by simp
            from prems(1)[OF this] show ?thesis .
          qed
        qed
      qed
    qed
  qed
  done

lemma loop_returns_last_poll:
  "waitForTaskStatus_loop R c taskId targetStatus timeoutMs pollIntervalMs startTime w
     = Some (Inr task, c', w') \<Longrightarrow>
   get_prop_opt task ''status'' = Inr (Some (JStr targetStatus))
   \<and> (\<exists>c0 w0. getTask R c0 taskId w0 = Some (Inr task, c', w')
                \<and> int (clock w0) - int startTime < timeoutMs)"
  using loop_returns_last_poll_aux by blast

text \<open>
  C4, as amended.  While the deadline has not passed, a poll that returns a task whose
  status is the target ends the loop with that task, no further call being made; a poll
  that returns a task with another status is followed, after a sleep of the poll interval
  that issues no call, by the same loop from the state that poll left; a poll that throws
  ends the loop with what it threw.  Whenever the loop returns a task, that task has the
  target status and the state returned is the one left by the poll that fetched it, a poll
  begun before the deadline.  Once the elapsed time is no longer below the timeout the
  loop throws a ZaphWorkError with no status code and the message
  \<^verbatim>\<open>Timeout waiting for task .. to reach status ..\<close>.  When every poll returns a task
  whose status is not the target and the poll interval is positive, the loop ends with
  that error, at an elapsed time of at least the timeout.  \<^verbatim>\<open>waitForTaskStatus\<close> is this
  loop started at the current time, with a timeout of 60000 and an interval of 2000 where
  the caller gives none.
\<close>

theorem waitForTaskStatus_loop_outcomes:
  "(int (clock w) - int startTime < timeoutMs
      \<and> getTask R c taskId w = Some (Inr task, c1, w1)
      \<and> get_prop_opt task ''status'' = Inr (Some (JStr targetStatus))
    \<longrightarrow> waitForTaskStatus_loop R c taskId targetStatus timeoutMs pollIntervalMs startTime w
          = Some (Inr task, c1, w1))
   \<and> (int (clock w) - int startTime < timeoutMs
      \<and> getTask R c taskId w = Some (Inr task, c1, w1)
      \<and> get_prop_opt task ''status'' = Inr st \<and> st \<noteq> Some (JStr targetStatus)
    \<longrightarrow> waitForTaskStatus_loop R c taskId targetStatus timeoutMs pollIntervalMs startTime w
          = waitForTaskStatus_loop R c1 taskId targetStatus timeoutMs pollIntervalMs startTime
              (sleep pollIntervalMs w1)
        \<and> calls (sleep pollIntervalMs w1) = calls w1
        \<and> clock (sleep pollIntervalMs w1) = clock w1 + nat pollIntervalMs)
   \<and> (int (clock w) - int startTime < timeoutMs
      \<and> getTask R c taskId w = Some (Inl e, c1, w1)
    \<longrightarrow> waitForTaskStatus_loop R c taskId targetStatus timeoutMs pollIntervalMs startTime w
          = Some (Inl e, c1, w1))
   \<and> (waitForTaskStatus_loop R c taskId targetStatus timeoutMs pollIntervalMs startTime w
          = Some (Inr found, c', w')
    \<longrightarrow> get_prop_opt found ''status'' = Inr (Some (JStr targetStatus))
        \<and> (\<exists>c0 w0. getTask R c0 taskId w0 = Some (Inr found, c', w')
                     \<and> int (clock w0) - int startTime < timeoutMs))
   \<and> (\<not> int (clock w) - int startTime < timeoutMs
    \<longrightarrow> waitForTaskStatus_loop R c taskId targetStatus timeoutMs pollIntervalMs startTime w
          = Some (Inl (SdkError ZaphWorkError
                    (''Timeout waiting for task '' @ taskId @ '' to reach status '' @ targetStatus)
                    None), c, w))
   \<and> (never_matches R taskId targetStatus \<and> 0 < pollIntervalMs
    \<longrightarrow> (\<exists>c' w'.
           waitForTaskStatus_loop R c taskId targetStatus timeoutMs pollIntervalMs startTime w
             = Some (Inl (SdkError ZaphWorkError
                       (''Timeout waiting for task '' @ taskId @ '' to reach status '' @ targetStatus)
                       None), c', w')
           \<and> timeoutMs \<le> int (clock w') - int startTime))
   \<and> waitForTaskStatus R c taskId targetStatus timeout_arg interval_arg w
       = waitForTaskStatus_loop R c taskId targetStatus
           (case timeout_arg of None \<Rightarrow> 60000 | Some t \<Rightarrow> t)
           (case interval_arg of None \<Rightarrow> 2000 | Some p \<Rightarrow> p)
           (clock w) w"
proof -
  have 1: "int (clock w) - int startTime < timeoutMs
      \<and> getTask R c taskId w = Some (Inr task, c1, w1)
      \<and> get_prop_opt task ''status'' = Inr (Some (JStr targetStatus))
    \<longrightarrow> waitForTaskStatus_loop R c taskId targetStatus timeoutMs pollIntervalMs startTime w
          = Some (Inr task, c1, w1)"
    using loop_match by blast
  have 2: "int (clock w) - int startTime < timeoutMs
      \<and> getTask R c taskId w = Some (Inr task, c1, w1)
      \<and> get_prop_opt task ''status'' = Inr st \<and> st \<noteq> Some (JStr targetStatus)
    \<longrightarrow> waitForTaskStatus_loop R c taskId targetStatus timeoutMs pollIntervalMs startTime w
          = waitForTaskStatus_loop R c1 taskId targetStatus timeoutMs pollIntervalMs startTime
              (sleep pollIntervalMs w1)
        \<and> calls (sleep pollIntervalMs w1) = calls w1
        \<and> clock (sleep pollIntervalMs w1) = clock w1 + nat pollIntervalMs"
    using loop_again[of w startTime timeoutMs R c taskId task c1 w1 st targetStatus pollIntervalMs]
    by (simp add: sleep_def)
  have 3: "int (clock w) - int startTime < timeoutMs
      \<and> getTask R c taskId w = Some (Inl e, c1, w1)
    \<longrightarrow> waitForTaskStatus_loop R c taskId targetStatus timeoutMs pollIntervalMs startTime w
          = Some (Inl e, c1, w1)"
    using loop_poll_throws by blast
  have 4: "waitForTaskStatus_loop R c taskId targetStatus timeoutMs pollIntervalMs startTime w
          = Some (Inr found, c', w')
    \<longrightarrow> get_prop_opt found ''status'' = Inr (Some (JStr targetStatus))
        \<and> (\<exists>c0 w0. getTask R c0 taskId w0 = Some (Inr found, c', w')
                     \<and> int (clock w0) - int startTime < timeoutMs)"
    using loop_returns_last_poll by blast
  have 5: "\<not> int (clock w) - int startTime < timeoutMs
    \<longrightarrow> waitForTaskStatus_loop R c taskId targetStatus timeoutMs pollIntervalMs startTime w
          = Some (Inl (SdkError ZaphWorkError
                    (''Timeout waiting for task '' @ taskId @ '' to reach status '' @ targetStatus)
                    None), c, w)"
    using loop_deadline[of w startTime timeoutMs R c taskId targetStatus pollIntervalMs]
    by (simp add: timeout_error_def new_ZaphWorkError_def)
  have 6: "never_matches R taskId targetStatus \<and> 0 < pollIntervalMs
    \<longrightarrow> (\<exists>c' w'.
           waitForTaskStatus_loop R c taskId targetStatus timeoutMs pollIntervalMs startTime w
             = Some (Inl (SdkError ZaphWorkError
                       (''Timeout waiting for task '' @ taskId @ '' to reach status '' @ targetStatus)
                       None), c', w')
           \<and> timeoutMs \<le> int (clock w') - int startTime)"
    using loop_times_out[of R taskId targetStatus pollIntervalMs c timeoutMs startTime w]
    by (simp add: timeout_error_def new_ZaphWorkError_def)
  have 7: "waitForTaskStatus R c taskId targetStatus timeout_arg interval_arg w
       = waitForTaskStatus_loop R c taskId targetStatus
           (case timeout_arg of None \<Rightarrow> 60000 | Some t \<Rightarrow> t)
           (case interval_arg of None \<Rightarrow> 2000 | Some p \<Rightarrow> p)
           (clock w) w"
    by (simp add: waitForTaskStatus_def)
  from 1 2 3 4 5 6 7 show ?thesis by (intro conjI)
qed

theorem waitForTaskStatus_loop_outcomes_witness:
  "waitForTaskStatus_loop (demo_runtime server_done_task) signed_in_client ''42'' ''completed''
       5000 1000 1000 world0
     = Some (Inr (Some (JObj [(''status'', JStr ''completed'')])), signed_in_client,
             \<lparr> calls = [session_call signed_in_client ''/api/tasks/42'' no_options], clock = 1001 \<rparr>)
   \<and> waitForTaskStatus_loop (demo_runtime server_open_then_done) signed_in_client ''42'' ''completed''
       5000 1000 1000 world0
     = Some (Inr (Some (JObj [(''status'', JStr ''completed'')])), signed_in_client,
             \<lparr> calls = [session_call signed_in_client ''/api/tasks/42'' no_options,
                         session_call signed_in_client ''/api/tasks/42'' no_options],
               clock = 2002 \<rparr>)
   \<and> waitForTaskStatus_loop (demo_runtime server_404) signed_in_client ''42'' ''completed''
       5000 1000 1000 world0
     = Some (Inl (SdkError ZaphWorkError ''Task not found'' (Some 404)), signed_in_client,
             \<lparr> calls = [session_call signed_in_client ''/api/tasks/42'' no_options], clock = 1005 \<rparr>)
   \<and> waitForTaskStatus_loop (demo_runtime server_done_task) signed_in_client ''42'' ''completed''
       0 1000 1000 world0
     = Some (Inl (SdkError ZaphWorkError ''Timeout waiting for task 42 to reach status completed''
                    None), signed_in_client, world0)
   \<and> never_matches (demo_runtime server_open_task) ''42'' ''completed''
   \<and> (\<exists>c' w'.
         waitForTaskStatus_loop (demo_runtime server_open_task) signed_in_client ''42'' ''completed''
             5000 1000 1000 world0
           = Some (Inl (SdkError ZaphWorkError ''Timeout waiting for task 42 to reach status completed''
                          None), c', w')
         \<and> 5000 \<le> int (clock w') - int 1000)"
proof -
  let ?call = "session_call signed_in_client ''/api/tasks/42'' no_options"
  let ?w1 = "\<lparr> calls = [?call], clock = 1001 \<rparr>"
  let ?w2 = "\<lparr> calls = [?call, ?call], clock = 2002 \<rparr>"
  let ?w4 = "\<lparr> calls = [?call], clock = 1005 \<rparr>"
  let ?done = "Some (JObj [(''status'', JStr ''completed'')])"
  let ?open = "Some (JObj [(''status'', JStr ''open'')])"
  have g: "getTask (demo_runtime server_done_task) signed_in_client ''42'' world0
             = Some (Inr ?done, signed_in_client, ?w1)"
    unfolding getTask_def
    by (subst request.simps)
       (simp add: demo_defs server_done_task_def ok_def startsWith_def return_json_def unwrap_def
          session_call_def)
  have g1: "getTask (demo_runtime server_open_then_done) signed_in_client ''42'' world0
             = Some (Inr ?open, signed_in_client, ?w1)"
    unfolding getTask_def
    by (subst request.simps)
       (simp add: demo_defs server_open_then_done_def ok_def startsWith_def return_json_def
          unwrap_def session_call_def)
  have g2: "getTask (demo_runtime server_open_then_done) signed_in_client ''42'' (sleep 1000 ?w1)
             = Some (Inr ?done, signed_in_client, ?w2)"
    unfolding getTask_def
    by (subst request.simps)
       (simp add: demo_defs server_open_then_done_def ok_def startsWith_def return_json_def
          unwrap_def session_call_def sleep_def)
  have g4: "getTask (demo_runtime server_404) signed_in_client ''42'' world0
             = Some (Inl (SdkError ZaphWorkError ''Task not found'' (Some 404)), signed_in_client, ?w4)"
    unfolding getTask_def
    by (subst request.simps)
       (simp add: demo_defs server_404_def ok_def startsWith_def unwrap_def session_call_def
          not_ok_error_def or_message_def new_ZaphWorkError_def)
  have s: "get_prop_opt ?done ''status'' = Inr (Some (JStr ''completed''))"
    "get_prop_opt ?open ''status'' = Inr (Some (JStr ''open''))"
    "Some (JStr ''open'') \<noteq> Some (JStr ''completed'')"
    by simp_all
  have t: "int (clock world0) - int 1000 < 5000" "\<not> int (clock world0) - int 1000 < 0"
    "int (clock (sleep 1000 ?w1)) - int 1000 < 5000"
    by (simp_all add: world0_def sleep_def)
  from waitForTaskStatus_loop_outcomes
         [where R = "demo_runtime server_done_task" and c = signed_in_client and taskId = "''42''"
            and targetStatus = "''completed''" and timeoutMs = 5000 and pollIntervalMs = 1000
            and startTime = 1000 and w = world0 and task = ?done and ?c1.0 = signed_in_client
            and ?w1.0 = ?w1] g s(1) t(1)
  have a: "waitForTaskStatus_loop (demo_runtime server_done_task) signed_in_client ''42'' ''completed''
       5000 1000 1000 world0 = Some (Inr ?done, signed_in_client, ?w1)" by blast
  from waitForTaskStatus_loop_outcomes
         [where R = "demo_runtime server_open_then_done" and c = signed_in_client and taskId = "''42''"
            and targetStatus = "''completed''" and timeoutMs = 5000 and pollIntervalMs = 1000
            and startTime = 1000 and w = world0 and task = ?open and ?c1.0 = signed_in_client
            and ?w1.0 = ?w1 and st = "Some (JStr ''open'')"] g1 s(2,3) t(1)
  have a1: "waitForTaskStatus_loop (demo_runtime server_open_then_done) signed_in_client ''42''
              ''completed'' 5000 1000 1000 world0
            = waitForTaskStatus_loop (demo_runtime server_open_then_done) signed_in_client ''42''
              ''completed'' 5000 1000 1000 (sleep 1000 ?w1)" by blast
  from waitForTaskStatus_loop_outcomes
         [where R = "demo_runtime server_open_then_done" and c = signed_in_client and taskId = "''42''"
            and targetStatus = "''completed''" and timeoutMs = 5000 and pollIntervalMs = 1000
            and startTime = 1000 and w = "sleep 1000 ?w1" and task = ?done and ?c1.0 = signed_in_client
            and ?w1.0 = ?w2] g2 s(1) t(3)
  have a2: "waitForTaskStatus_loop (demo_runtime server_open_then_done) signed_in_client ''42''
              ''completed'' 5000 1000 1000 (sleep 1000 ?w1) = Some (Inr ?done, signed_in_client, ?w2)"
    by blast
  from waitForTaskStatus_loop_outcomes
         [where R = "demo_runtime server_404" and c = signed_in_client and taskId = "''42''"
            and targetStatus = "''completed''" and timeoutMs = 5000 and pollIntervalMs = 1000
            and startTime = 1000 and w = world0 and ?c1.0 = signed_in_client and ?w1.0 = ?w4
            and e = "SdkError ZaphWorkError ''Task not found'' (Some 404)"] g4 t(1)
  have a4: "waitForTaskStatus_loop (demo_runtime server_404) signed_in_client ''42'' ''completed''
       5000 1000 1000 world0
     = Some (Inl (SdkError ZaphWorkError ''Task not found'' (Some 404)), signed_in_client, ?w4)"
    by blast
  from waitForTaskStatus_loop_outcomes
         [where R = "demo_runtime server_done_task" and c = signed_in_client and taskId = "''42''"
            and targetStatus = "''completed''" and timeoutMs = 0 and pollIntervalMs = 1000
            and startTime = 1000 and w = world0] t(2)
  have b: "waitForTaskStatus_loop (demo_runtime server_done_task) signed_in_client ''42'' ''completed''
       0 1000 1000 world0
     = Some (Inl (SdkError ZaphWorkError ''Timeout waiting for task 42 to reach status completed''
                    None), signed_in_client, world0)" by simp
  from waitForTaskStatus_loop_outcomes
         [where R = "demo_runtime server_open_task" and c = signed_in_client and taskId = "''42''"
            and targetStatus = "''completed''" and timeoutMs = 5000 and pollIntervalMs = 1000
            and startTime = 1000 and w = world0,
          THEN conjunct2, THEN conjunct2, THEN conjunct2, THEN conjunct2, THEN conjunct2,
          THEN conjunct1]
       server_open_task_never_matches
  have c: "\<exists>c' w'.
         waitForTaskStatus_loop (demo_runtime server_open_task) signed_in_client ''42'' ''completed''
             5000 1000 1000 world0
           = Some (Inl (SdkError ZaphWorkError ''Timeout waiting for task 42 to reach status completed''
                          None), c', w')
         \<and> 5000 \<le> int (clock w') - int 1000" by simp
  from a1 a2
  have a12: "waitForTaskStatus_loop (demo_runtime server_open_then_done) signed_in_client ''42''
              ''completed'' 5000 1000 1000 world0 = Some (Inr ?done, signed_in_client, ?w2)"
    by (rule trans)
  from a a12 a4 b c server_open_task_never_matches show ?thesis by blast
qed

text \<open>
  C4 as stated fails: the value thrown at the deadline is a plain ZaphWorkError, the class
  that \<^verbatim>\<open>request\<close> throws for a response that is not ok; there is no timeout class.
\<close>

theorem waitForTaskStatus_timeout_class_counterexample:
  "waitForTaskStatus (demo_runtime server_open_task) signed_in_client ''42'' ''completed''
       (Some 1000) None world0
     = Some (Inl (SdkError ZaphWorkError ''Timeout waiting for task 42 to reach status completed''
                    None), signed_in_client,
             \<lparr> calls = [session_call signed_in_client ''/api/tasks/42'' no_options], clock = 3001 \<rparr>)
   \<and> error_class (SdkError ZaphWorkError ''Timeout waiting for task 42 to reach status completed'' None)
       = error_class (not_ok_error (demo_runtime server_500) (reply 500 ''Internal Server Error'' None))"
proof -
  let ?w1 = "\<lparr> calls = [session_call signed_in_client ''/api/tasks/42'' no_options], clock = 1001 \<rparr>"
  have g: "getTask (demo_runtime server_open_task) signed_in_client ''42'' world0
             = Some (Inr (Some (JObj [(''status'', JStr ''open'')])), signed_in_client, ?w1)"
    unfolding getTask_def
    by (subst request.simps)
       (simp add: demo_defs server_open_task_def ok_def startsWith_def return_json_def unwrap_def
          session_call_def)
  have "waitForTaskStatus (demo_runtime server_open_task) signed_in_client ''42'' ''completed''
       (Some 1000) None world0
     = Some (Inl (SdkError ZaphWorkError ''Timeout waiting for task 42 to reach status completed''
                    None), signed_in_client,
             \<lparr> calls = [session_call signed_in_client ''/api/tasks/42'' no_options], clock = 3001 \<rparr>)"
    unfolding waitForTaskStatus_def
    apply (subst waitForTaskStatus_loop.simps)
    apply (simp add: g)
    apply (simp add: world0_def)
    apply (subst waitForTaskStatus_loop.simps)
    apply (simp add: sleep_def timeout_error_def new_ZaphWorkError_def)
    done
  moreover have "error_class (SdkError ZaphWorkError ''Timeout waiting for task 42 to reach status completed'' None)
       = error_class (not_ok_error (demo_runtime server_500) (reply 500 ''Internal Server Error'' None))"
    by (simp add: not_ok_error_def reply_def or_message_def new_ZaphWorkError_def)
  ultimately show ?thesis by blast
qed

end
